theory Spec2Isabelle
  imports Complex_Main "HOL-Library.List_Lexorder" "HOL-Library.Char_ord" "HOL-Library.AList" "HOL-Library.Monad_Syntax"
begin

section \<open>Data model of the V2 hypergraph builder\<close>

text \<open>
  \<^verbatim>\<open>enhanced_hypergraph_builder_agent_v2.py\<close>: the enums \<^verbatim>\<open>NodeType\<close> and \<^verbatim>\<open>EdgeType\<close> with
  their string values, and the dataclasses \<^verbatim>\<open>EnhancedHyperNode\<close> and \<^verbatim>\<open>EnhancedHyperEdge\<close>.
  Python's \<^verbatim>\<open>Decimal\<close> and \<^verbatim>\<open>float\<close> confidences are modelled as real numbers; the
  free-form dictionaries of a node (\<^verbatim>\<open>metadata\<close>, \<^verbatim>\<open>needs_classification\<close>,
  \<^verbatim>\<open>domain_specific_properties\<close>) are not read by any function modelled here and are left
  to the extension slot of the record.
\<close>

datatype NodeType = PERSON | ORGANIZATION | CONCEPT | SKILL | NEED | BEHAVIORAL_PATTERN
  | PERSONALITY_TRAIT | FINANCIAL_INSTRUMENT | BUSINESS_CONCEPT | TOPIC

datatype EdgeType = DEMONSTRATES | RELATES_TO | INFLUENCES | REQUIRES | ENABLES | PART_OF
  | SIMILAR_TO | WORKS_WITH | SPECIALIZES_IN | INTERVIEWS | DISCUSSES | AFFILIATED_WITH | USES

fun node_type_value :: "NodeType \<Rightarrow> string" where
  "node_type_value PERSON = ''person''"
| "node_type_value ORGANIZATION = ''organization''"
| "node_type_value CONCEPT = ''concept''"
| "node_type_value SKILL = ''skill''"
| "node_type_value NEED = ''need''"
| "node_type_value BEHAVIORAL_PATTERN = ''behavioral_pattern''"
| "node_type_value PERSONALITY_TRAIT = ''personality_trait''"
| "node_type_value FINANCIAL_INSTRUMENT = ''financial_instrument''"
| "node_type_value BUSINESS_CONCEPT = ''business_concept''"
| "node_type_value TOPIC = ''topic''"

fun edge_type_value :: "EdgeType \<Rightarrow> string" where
  "edge_type_value DEMONSTRATES = ''demonstrates''"
| "edge_type_value RELATES_TO = ''relates_to''"
| "edge_type_value INFLUENCES = ''influences''"
| "edge_type_value REQUIRES = ''requires''"
| "edge_type_value ENABLES = ''enables''"
| "edge_type_value PART_OF = ''part_of''"
| "edge_type_value SIMILAR_TO = ''similar_to''"
| "edge_type_value WORKS_WITH = ''works_with''"
| "edge_type_value SPECIALIZES_IN = ''specializes_in''"
| "edge_type_value INTERVIEWS = ''interviews''"
| "edge_type_value DISCUSSES = ''discusses''"
| "edge_type_value AFFILIATED_WITH = ''affiliated_with''"
| "edge_type_value USES = ''uses''"

record EnhancedHyperNode =
  n_id :: string
  n_content :: string
  n_node_type :: NodeType
  n_confidence :: real
  n_timestamp :: string
  n_source :: string

record EnhancedHyperEdge =
  e_id :: string
  e_source_node_id :: string
  e_target_node_id :: string
  e_edge_type :: EdgeType
  e_confidence :: real
  e_timestamp :: string
  e_extraction_source :: string
  e_relationship_strength :: real
  e_evidence :: "string list"
  e_reasoning :: string

section \<open>Graph metrics of the V2 builder\<close>

text \<open>
  \<^verbatim>\<open>_calculate_quality_score\<close>. \<^verbatim>\<open>len(set(...))\<close> is the length of the list without its
  duplicates; the means divide the sum of the confidences by the length of the list.
\<close>

definition calculate_quality_score ::
  "('a EnhancedHyperNode_scheme) list \<Rightarrow> ('b EnhancedHyperEdge_scheme) list \<Rightarrow> real" where
  "calculate_quality_score nodes edges =
     (if nodes = [] then 0
      else
        let avg_node_confidence = sum_list (map n_confidence nodes) / real (length nodes);
            avg_edge_confidence =
              (if edges \<noteq> [] then sum_list (map e_confidence edges) / real (length edges) else 0);
            entity_types = length (remdups (map (\<lambda>n. node_type_value (n_node_type n)) nodes));
            diversity_score = min (real entity_types / 6) 1;
            relationship_types =
              (if edges \<noteq> [] then length (remdups (map (\<lambda>e. edge_type_value (e_edge_type e)) edges))
               else 0);
            rel_diversity_score = min (real relationship_types / 5) 1
        in 3 / 10 * avg_node_confidence + 3 / 10 * avg_edge_confidence
           + 2 / 10 * diversity_score + 2 / 10 * rel_diversity_score)"

text \<open>
  Python's \<^verbatim>\<open>max\<close> over an iterable keeps the first item and replaces it by a later one
  only when that one is strictly greater. Strings compare lexicographically by character
  code, which is the order of \<^typ>\<open>char list\<close> here.
\<close>

fun py_max_from :: "'a::linorder \<Rightarrow> 'a list \<Rightarrow> 'a" where
  "py_max_from m [] = m"
| "py_max_from m (x # xs) = py_max_from (if x > m then x else m) xs"

text \<open>
  \<^verbatim>\<open>_generate_graph_insights\<close>. \<^verbatim>\<open>node_connections\<close> is a dict that keeps the order in
  which its keys were first inserted, so it is an association list; \<^verbatim>\<open>sorted(...,
  reverse=True)\<close> is a stable sort into descending order of the count.
\<close>

fun count_connection :: "string \<Rightarrow> (string \<times> nat) list \<Rightarrow> (string \<times> nat) list" where
  "count_connection k [] = [(k, 1)]"
| "count_connection k ((k', c) # rest) =
     (if k = k' then (k', c + 1) # rest else (k', c) # count_connection k rest)"

definition node_connections :: "('b EnhancedHyperEdge_scheme) list \<Rightarrow> (string \<times> nat) list" where
  "node_connections edges =
     fold (\<lambda>e m. count_connection (e_target_node_id e) (count_connection (e_source_node_id e) m))
       edges []"

record graph_insights =
  central_entities :: "string list"
  graph_density :: real
  most_common_relationship :: string
  entity_diversity :: nat
  quality_score :: real

definition generate_graph_insights ::
  "('a EnhancedHyperNode_scheme) list \<Rightarrow> ('b EnhancedHyperEdge_scheme) list \<Rightarrow> graph_insights" where
  "generate_graph_insights nodes edges =
     (let most_connected = take 3 (sort_key (\<lambda>(k, c). - int c) (node_connections edges));
          node_lookup = map_of (rev (map (\<lambda>n. (n_id n, n_content n)) nodes))
      in \<lparr> central_entities =
             map (\<lambda>(node_id, c). case node_lookup node_id of Some t \<Rightarrow> t | None \<Rightarrow> ''Unknown'')
               most_connected,
           graph_density =
             (if length nodes > 1
              then real (length edges) / real (length nodes * (length nodes - 1)) else 0),
           most_common_relationship =
             (case map (\<lambda>e. edge_type_value (e_edge_type e)) edges of
                [] \<Rightarrow> ''none'' | v # vs \<Rightarrow> py_max_from v vs),
           entity_diversity = length (remdups (map (\<lambda>n. node_type_value (n_node_type n)) nodes)),
           quality_score = calculate_quality_score nodes edges \<rparr>)"

text \<open>Constructors for concrete nodes and edges, used where a property is evaluated.\<close>

definition node_of :: "string \<Rightarrow> string \<Rightarrow> NodeType \<Rightarrow> real \<Rightarrow> EnhancedHyperNode" where
  "node_of i c t r = \<lparr> n_id = i, n_content = c, n_node_type = t, n_confidence = r,
     n_timestamp = [], n_source = [] \<rparr>"

definition edge_of :: "string \<Rightarrow> string \<Rightarrow> EdgeType \<Rightarrow> real \<Rightarrow> EnhancedHyperEdge" where
  "edge_of s t ty r = \<lparr> e_id = [], e_source_node_id = s, e_target_node_id = t,
     e_edge_type = ty, e_confidence = r, e_timestamp = [], e_extraction_source = [],
     e_relationship_strength = r, e_evidence = [], e_reasoning = [] \<rparr>"

section \<open>Python floats\<close>

text \<open>
  Where the code compares or clamps a \<^verbatim>\<open>float\<close> that it read from outside, the float is a
  real number, an infinity or NaN.
\<close>

datatype pyfloat = Fin real | PosInf | NegInf | NaN

text \<open>The comparison \<^verbatim>\<open><\<close> of floats: every comparison with NaN is false.\<close>

fun pyfloat_less :: "pyfloat \<Rightarrow> pyfloat \<Rightarrow> bool" where
  "pyfloat_less NaN _ = False"
| "pyfloat_less _ NaN = False"
| "pyfloat_less (Fin a) (Fin b) = (a < b)"
| "pyfloat_less (Fin a) PosInf = True"
| "pyfloat_less (Fin a) NegInf = False"
| "pyfloat_less PosInf _ = False"
| "pyfloat_less NegInf NegInf = False"
| "pyfloat_less NegInf _ = True"

text \<open>The comparison \<^verbatim>\<open><=\<close> of floats.\<close>

fun pyfloat_le :: "pyfloat \<Rightarrow> pyfloat \<Rightarrow> bool" where
  "pyfloat_le NaN _ = False"
| "pyfloat_le _ NaN = False"
| "pyfloat_le (Fin a) (Fin b) = (a \<le> b)"
| "pyfloat_le (Fin a) PosInf = True"
| "pyfloat_le (Fin a) NegInf = False"
| "pyfloat_le PosInf PosInf = True"
| "pyfloat_le PosInf _ = False"
| "pyfloat_le NegInf _ = True"

section \<open>Entities, relationships and graph construction of the V2 builder\<close>

text \<open>
  Strings are lists of 8-bit characters, so the model covers ASCII text: \<^verbatim>\<open>str.lower()\<close>
  maps \<^verbatim>\<open>A\<close>..\<^verbatim>\<open>Z\<close> to \<^verbatim>\<open>a\<close>..\<^verbatim>\<open>z\<close> and leaves every other character alone.
\<close>

definition lower_char :: "char \<Rightarrow> char" where
  "lower_char c = (if CHR ''A'' \<le> c \<and> c \<le> CHR ''Z'' then char_of (of_char c + (32 :: nat)) else c)"

definition lower :: "string \<Rightarrow> string" where
  "lower s = map lower_char s"

text \<open>
  The dataclasses \<^verbatim>\<open>CleanEntity\<close> and \<^verbatim>\<open>CleanRelationship\<close>. The free-form
  \<^verbatim>\<open>properties\<close> dictionary of an entity is left to the extension slot of the record. The
  confidence of an entity is a Python float, which may come from the JSON of a model's
  response and so may be NaN or infinite.
\<close>

record CleanEntity =
  ce_text :: string
  ce_entity_type :: NodeType
  ce_confidence :: pyfloat
  ce_context :: string
  ce_source :: string
  ce_domain_relevance :: real

record CleanRelationship =
  cr_source_entity :: string
  cr_target_entity :: string
  cr_relationship_type :: EdgeType
  cr_confidence :: real
  cr_evidence :: "string list"
  cr_reasoning :: string
  cr_source :: string

text \<open>
  \<^verbatim>\<open>CleanEntityExtractor._deduplicate_entities\<close>. \<^verbatim>\<open>entity_map\<close> is a dict, which keeps
  its keys in the order of their first insertion: an association list, where an assignment
  to a present key replaces the value in place and an assignment to a new key appends.
  The test \<^verbatim>\<open>entity.confidence > entity_map[key].confidence\<close> is the comparison of floats,
  false whenever one side is NaN. The result is \<^verbatim>\<open>list(entity_map.values())\<close>.
\<close>

definition entity_key :: "'a CleanEntity_scheme \<Rightarrow> string \<times> NodeType" where
  "entity_key entity = (lower (ce_text entity), ce_entity_type entity)"

definition deduplicate_step ::
  "'a CleanEntity_scheme \<Rightarrow> ((string \<times> NodeType) \<times> 'a CleanEntity_scheme) list
     \<Rightarrow> ((string \<times> NodeType) \<times> 'a CleanEntity_scheme) list" where
  "deduplicate_step entity entity_map =
     (case map_of entity_map (entity_key entity) of
        None \<Rightarrow> AList.update (entity_key entity) entity entity_map
      | Some kept \<Rightarrow>
          if pyfloat_less (ce_confidence kept) (ce_confidence entity)
          then AList.update (entity_key entity) entity entity_map
          else entity_map)"

definition deduplicate_entities :: "'a CleanEntity_scheme list \<Rightarrow> 'a CleanEntity_scheme list" where
  "deduplicate_entities entities = map snd (fold deduplicate_step entities [])"

text \<open>
  \<^verbatim>\<open>EnhancedHypergraphBuilderV2._generate_node_id\<close>. The MD5 digest is not modelled:
  \<open>md5_hexdigest s\<close> stands for \<^verbatim>\<open>hashlib.md5(s.encode()).hexdigest()\<close> and is a parameter,
  so every statement below holds for whatever function of the string the digest is.
\<close>

definition EnhancedHypergraphBuilderV2_generate_node_id ::
  "(string \<Rightarrow> string) \<Rightarrow> string \<Rightarrow> NodeType \<Rightarrow> string" where
  "EnhancedHypergraphBuilderV2_generate_node_id md5_hexdigest content node_type =
     (let content_hash = take 8 (md5_hexdigest (lower content))
      in node_type_value node_type @ ''_'' @ content_hash)"

text \<open>
  \<^verbatim>\<open>_create_enhanced_hypernodes\<close>. The clock reading \<^verbatim>\<open>datetime.now().isoformat()\<close> and
  the \<^verbatim>\<open>file_path\<close> of the analysis data are inputs. \<open>decimal_of_float x\<close> stands for
  \<^verbatim>\<open>Decimal(str(x))\<close>, read as the real number that a node carries; it is a parameter, so
  the statements about ids below hold whatever number a confidence becomes.
\<close>

definition create_enhanced_hypernodes ::
  "(string \<Rightarrow> string) \<Rightarrow> (pyfloat \<Rightarrow> real) \<Rightarrow> string \<Rightarrow> string
     \<Rightarrow> 'a CleanEntity_scheme list \<Rightarrow> EnhancedHyperNode list" where
  "create_enhanced_hypernodes md5_hexdigest decimal_of_float timestamp source entities =
     map (\<lambda>entity.
            \<lparr> n_id = EnhancedHypergraphBuilderV2_generate_node_id md5_hexdigest
                       (ce_text entity) (ce_entity_type entity),
              n_content = ce_text entity,
              n_node_type = ce_entity_type entity,
              n_confidence = decimal_of_float (ce_confidence entity),
              n_timestamp = timestamp,
              n_source = source \<rparr>)
       entities"

text \<open>
  \<^verbatim>\<open>_create_enhanced_hyperedges\<close>. \<^verbatim>\<open>node_lookup\<close> is built by a dict comprehension, so
  of two nodes with the same lowercased content the later one wins. \<^verbatim>\<open>if source_id and
  target_id\<close> rejects a missing key as well as an empty id.
\<close>

definition node_lookup_of :: "'a EnhancedHyperNode_scheme list \<Rightarrow> string \<rightharpoonup> string" where
  "node_lookup_of hypernodes = map_of (rev (map (\<lambda>node. (lower (n_content node), n_id node)) hypernodes))"

definition create_hyperedge ::
  "string \<Rightarrow> (string \<rightharpoonup> string) \<Rightarrow> 'b CleanRelationship_scheme \<Rightarrow> EnhancedHyperEdge option" where
  "create_hyperedge timestamp node_lookup rel =
     (case (node_lookup (lower (cr_source_entity rel)), node_lookup (lower (cr_target_entity rel))) of
        (Some source_id, Some target_id) \<Rightarrow>
          if source_id \<noteq> [] \<and> target_id \<noteq> []
          then Some \<lparr> e_id = ''edge_'' @ source_id @ ''_'' @ target_id @ ''_''
                               @ edge_type_value (cr_relationship_type rel),
                        e_source_node_id = source_id,
                        e_target_node_id = target_id,
                        e_edge_type = cr_relationship_type rel,
                        e_confidence = cr_confidence rel,
                        e_timestamp = timestamp,
                        e_extraction_source = cr_source rel,
                        e_relationship_strength = cr_confidence rel,
                        e_evidence = cr_evidence rel,
                        e_reasoning = cr_reasoning rel \<rparr>
          else None
      | _ \<Rightarrow> None)"

definition create_enhanced_hyperedges ::
  "string \<Rightarrow> 'b CleanRelationship_scheme list \<Rightarrow> 'a EnhancedHyperNode_scheme list
     \<Rightarrow> EnhancedHyperEdge list" where
  "create_enhanced_hyperedges timestamp relationships hypernodes =
     List.map_filter (create_hyperedge timestamp (node_lookup_of hypernodes)) relationships"

text \<open>Constructors for concrete entities and relationships.\<close>

definition entity_of :: "string \<Rightarrow> NodeType \<Rightarrow> pyfloat \<Rightarrow> CleanEntity" where
  "entity_of t ty r = \<lparr> ce_text = t, ce_entity_type = ty, ce_confidence = r, ce_context = [],
     ce_source = [], ce_domain_relevance = 4 / 5 \<rparr>"

definition relationship_of :: "string \<Rightarrow> string \<Rightarrow> EdgeType \<Rightarrow> real \<Rightarrow> CleanRelationship" where
  "relationship_of s t ty r = \<lparr> cr_source_entity = s, cr_target_entity = t,
     cr_relationship_type = ty, cr_confidence = r, cr_evidence = [], cr_reasoning = [],
     cr_source = [] \<rparr>"

text \<open>
  The invariant of the loop of \<^verbatim>\<open>_deduplicate_entities\<close>, over the entities \<open>ps\<close> seen so
  far: every entry of the dict is stored under its own key and comes from \<open>ps\<close>, no entity
  of \<open>ps\<close> with that key has a confidence that compares greater than the entry's, and
  the keys of the dict are the keys of \<open>ps\<close>.
\<close>

definition entity_map_ok ::
  "((string \<times> NodeType) \<rightharpoonup> 'a CleanEntity_scheme) \<Rightarrow> 'a CleanEntity_scheme list \<Rightarrow> bool" where
  "entity_map_ok M ps \<longleftrightarrow>
     (\<forall>k e. M k = Some e \<longrightarrow>
         entity_key e = k \<and> e \<in> set ps
         \<and> (\<forall>e'\<in>set ps. entity_key e' = k \<longrightarrow>
               \<not> pyfloat_less (ce_confidence e) (ce_confidence e')))
   \<and> dom M = entity_key ` set ps"

section \<open>Graph extraction agent: Python values\<close>

text \<open>
  \<^verbatim>\<open>graph_extraction_agent.py\<close> reads JSON-shaped Python values whose types it does not
  know. A JSON number is carried as the float that \<^verbatim>\<open>float()\<close> gives for it. A dict is an association list with one entry per key.
\<close>

datatype pyval = PNone | PBool bool | PNum pyfloat | PStr string | PList "pyval list"
  | PDict "(string \<times> pyval) list"

text \<open>
  \<^verbatim>\<open>min(a, b)\<close> returns \<open>a\<close> unless \<open>b < a\<close>, and \<^verbatim>\<open>max(a, b)\<close> returns \<open>a\<close> unless
  \<open>b > a\<close>.
\<close>

definition py_min2 :: "pyfloat \<Rightarrow> pyfloat \<Rightarrow> pyfloat" where
  "py_min2 a b = (if pyfloat_less b a then b else a)"

definition py_max2 :: "pyfloat \<Rightarrow> pyfloat \<Rightarrow> pyfloat" where
  "py_max2 a b = (if pyfloat_less a b then b else a)"

text \<open>Truth value of a Python value, as \<^verbatim>\<open>not x\<close> and \<^verbatim>\<open>x or y\<close> use it.\<close>

fun py_truthy :: "pyval \<Rightarrow> bool" where
  "py_truthy PNone = False"
| "py_truthy (PBool b) = b"
| "py_truthy (PNum f) = (f \<noteq> Fin 0)"
| "py_truthy (PStr s) = (s \<noteq> [])"
| "py_truthy (PList xs) = (xs \<noteq> [])"
| "py_truthy (PDict d) = (d \<noteq> [])"

text \<open>
  \<^verbatim>\<open>x.get(key, default)\<close>: only a dict has \<^verbatim>\<open>get\<close>; on any other value the call raises
  \<^verbatim>\<open>AttributeError\<close>, which is \<open>None\<close> here.
\<close>

fun dict_get :: "pyval \<Rightarrow> string \<Rightarrow> pyval \<Rightarrow> pyval option" where
  "dict_get (PDict d) key dflt = Some (case map_of d key of Some v \<Rightarrow> v | None \<Rightarrow> dflt)"
| "dict_get _ key dflt = None"

text \<open>\<^verbatim>\<open>x.lower()\<close> and \<^verbatim>\<open>x.strip()\<close> exist on strings only.\<close>

fun str_lower :: "pyval \<Rightarrow> string option" where
  "str_lower (PStr s) = Some (lower s)"
| "str_lower _ = None"

definition is_space :: "char \<Rightarrow> bool" where
  "is_space c \<longleftrightarrow> c \<in> set [CHR '' '', CHR 0x09, CHR 0x0A, CHR 0x0B, CHR 0x0C, CHR 0x0D,
                          CHR 0x1C, CHR 0x1D, CHR 0x1E, CHR 0x1F]"

definition strip :: "string \<Rightarrow> string" where
  "strip s = rev (dropWhile is_space (rev (dropWhile is_space s)))"

fun str_strip :: "pyval \<Rightarrow> string option" where
  "str_strip (PStr s) = Some (strip s)"
| "str_strip _ = None"

text \<open>
  What the code takes from outside. \<open>sha256_hexdigest s\<close> stands for
  \<^verbatim>\<open>hashlib.sha256(s.encode('utf-8')).hexdigest()\<close>; \<open>py_str v\<close> for the text an f-string
  puts for a value that is not a string; \<open>float_of_string s\<close> for \<^verbatim>\<open>float(s)\<close> on a string,
  \<open>None\<close> when it raises \<^verbatim>\<open>ValueError\<close>. \<open>build_node_attributes\<close> and
  \<open>build_edge_attributes\<close> stand for \<^verbatim>\<open>_build_node_attributes\<close> and
  \<^verbatim>\<open>_build_edge_attributes\<close>, which copy free-form fields of the input and may raise
  (\<open>None\<close>). Every statement below holds for all values of these parameters.
\<close>

record environment =
  sha256_hexdigest :: "string \<Rightarrow> string"
  py_str :: "pyval \<Rightarrow> string"
  float_of_string :: "string \<Rightarrow> pyfloat option"
  build_node_attributes :: "pyval \<Rightarrow> pyval option"
  build_edge_attributes :: "pyval \<Rightarrow> pyval option"

definition py_format :: "environment \<Rightarrow> pyval \<Rightarrow> string" where
  "py_format env v = (case v of PStr s \<Rightarrow> s | _ \<Rightarrow> py_str env v)"

text \<open>\<^verbatim>\<open>float(x)\<close>: \<^verbatim>\<open>TypeError\<close> on \<^verbatim>\<open>None\<close>, lists and dicts.\<close>

fun py_float :: "environment \<Rightarrow> pyval \<Rightarrow> pyfloat option" where
  "py_float env (PNum f) = Some f"
| "py_float env (PBool b) = Some (Fin (if b then 1 else 0))"
| "py_float env (PStr s) = float_of_string env s"
| "py_float env _ = None"

section \<open>Graph extraction agent: \<^verbatim>\<open>HypergraphParser\<close>\<close>

text \<open>
  The dataclasses \<^verbatim>\<open>ExtractedNode\<close> and \<^verbatim>\<open>ExtractedEdge\<close>. The \<^verbatim>\<open>metadata\<close> field, which
  holds the input's metadata and a clock reading and whose construction cannot raise, is
  left to the extension slot of the record. The endpoint ids of an edge are stored as read
  from the input, whatever their type.
\<close>

record ExtractedNode =
  en_id :: string
  en_customer_id :: string
  en_label :: string
  en_node_type :: string
  en_confidence :: pyfloat
  en_attributes :: pyval
  en_source_file :: string
  en_created_at :: string

record ExtractedEdge =
  ee_id :: string
  ee_customer_id :: string
  ee_source_node_id :: pyval
  ee_target_node_id :: pyval
  ee_relationship_type :: string
  ee_weight :: pyfloat
  ee_attributes :: pyval
  ee_source_file :: string
  ee_created_at :: string

definition supported_node_types :: "string list" where
  "supported_node_types = [''person'', ''organization'', ''concept'', ''skill'', ''need'',
     ''behavioral_pattern'', ''personality_trait'', ''financial_instrument'',
     ''business_concept'', ''topic'']"

definition supported_edge_types :: "string list" where
  "supported_edge_types = [''demonstrates'', ''relates_to'', ''influences'', ''requires'',
     ''enables'', ''part_of'', ''similar_to'', ''works_with'', ''specializes_in'',
     ''interviews'', ''discusses'', ''affiliated_with'', ''uses'']"

text \<open>\<^verbatim>\<open>HypergraphParser._generate_node_id\<close> and \<^verbatim>\<open>_generate_edge_id\<close>.\<close>

definition HypergraphParser_generate_node_id :: "environment \<Rightarrow> pyval \<Rightarrow> string \<Rightarrow> string option" where
  "HypergraphParser_generate_node_id env hypernode customer_id =
     do {
       content \<leftarrow> dict_get hypernode ''content'' (PStr []);
       node_type \<leftarrow> dict_get hypernode ''node_type'' (PStr ''concept'');
       let hash_input = customer_id @ '':'' @ py_format env node_type @ '':'' @ py_format env content;
       let hash_value = take 16 (sha256_hexdigest env hash_input);
       Some (''node_'' @ hash_value)
     }"

definition HypergraphParser_generate_edge_id :: "environment \<Rightarrow> pyval \<Rightarrow> string \<Rightarrow> string option" where
  "HypergraphParser_generate_edge_id env hyperedge customer_id =
     do {
       source_id \<leftarrow> dict_get hyperedge ''source_node_id'' (PStr []);
       target_id \<leftarrow> dict_get hyperedge ''target_node_id'' (PStr []);
       edge_type \<leftarrow> dict_get hyperedge ''edge_type'' (PStr ''relates_to'');
       let hash_input = customer_id @ '':'' @ py_format env source_id @ '':''
                          @ py_format env target_id @ '':'' @ py_format env edge_type;
       let hash_value = take 16 (sha256_hexdigest env hash_input);
       Some (''edge_'' @ hash_value)
     }"

text \<open>
  One iteration of the loop of \<^verbatim>\<open>_extract_nodes\<close>: the body of the \<^verbatim>\<open>try\<close>. Any
  exception is caught, logged, and the loop goes on with the next item, so the iteration
  yields a node or nothing.
\<close>

definition extract_node ::
  "environment \<Rightarrow> string \<Rightarrow> string \<Rightarrow> string \<Rightarrow> pyval \<Rightarrow> ExtractedNode option" where
  "extract_node env customer_id source_file current_time hypernode =
     do {
       node_id \<leftarrow> HypergraphParser_generate_node_id env hypernode customer_id;
       raw_type \<leftarrow> dict_get hypernode ''node_type'' (PStr ''concept'');
       lowered \<leftarrow> str_lower raw_type;
       let node_type = (if lowered \<notin> set supported_node_types then ''concept'' else lowered);
       raw_confidence \<leftarrow> dict_get hypernode ''confidence'' (PNum (Fin (1 / 2)));
       confidence \<leftarrow> py_float env raw_confidence;
       let confidence = py_max2 (Fin 0) (py_min2 (Fin 1) confidence);
       attributes \<leftarrow> build_node_attributes env hypernode;
       raw_content \<leftarrow> dict_get hypernode ''content'' (PStr []);
       stripped \<leftarrow> str_strip raw_content;
       Some \<lparr> en_id = node_id,
              en_customer_id = customer_id,
              en_label = (if stripped \<noteq> [] then stripped else ''Node_'' @ take 8 node_id),
              en_node_type = node_type,
              en_confidence = confidence,
              en_attributes = attributes,
              en_source_file = source_file,
              en_created_at = current_time \<rparr>
     }"

definition extract_nodes ::
  "environment \<Rightarrow> pyval list \<Rightarrow> string \<Rightarrow> string \<Rightarrow> string \<Rightarrow> ExtractedNode list" where
  "extract_nodes env hypernodes customer_id source_file current_time =
     List.map_filter (extract_node env customer_id source_file current_time) hypernodes"

text \<open>One iteration of the loop of \<^verbatim>\<open>_extract_edges\<close>.\<close>

definition extract_edge ::
  "environment \<Rightarrow> string \<Rightarrow> string \<Rightarrow> string \<Rightarrow> pyval \<Rightarrow> ExtractedEdge option" where
  "extract_edge env customer_id source_file current_time hyperedge =
     do {
       edge_id \<leftarrow> HypergraphParser_generate_edge_id env hyperedge customer_id;
       source_node_id \<leftarrow> dict_get hyperedge ''source_node_id'' (PStr []);
       target_node_id \<leftarrow> dict_get hyperedge ''target_node_id'' (PStr []);
       if \<not> py_truthy source_node_id \<or> \<not> py_truthy target_node_id then None
       else do {
         raw_type \<leftarrow> dict_get hyperedge ''edge_type'' (PStr ''relates_to'');
         lowered \<leftarrow> str_lower raw_type;
         let edge_type = (if lowered \<notin> set supported_edge_types then ''relates_to'' else lowered);
         raw_confidence \<leftarrow> dict_get hyperedge ''confidence'' (PNum (Fin (1 / 2)));
         weight \<leftarrow> py_float env raw_confidence;
         let weight = py_max2 (Fin 0) (py_min2 (Fin 1) weight);
         attributes \<leftarrow> build_edge_attributes env hyperedge;
         Some \<lparr> ee_id = edge_id,
                ee_customer_id = customer_id,
                ee_source_node_id = source_node_id,
                ee_target_node_id = target_node_id,
                ee_relationship_type = edge_type,
                ee_weight = weight,
                ee_attributes = attributes,
                ee_source_file = source_file,
                ee_created_at = current_time \<rparr>
       }
     }"

definition extract_edges ::
  "environment \<Rightarrow> pyval list \<Rightarrow> string \<Rightarrow> string \<Rightarrow> string \<Rightarrow> ExtractedEdge list" where
  "extract_edges env hyperedges customer_id source_file current_time =
     List.map_filter (extract_edge env customer_id source_file current_time) hyperedges"







section \<open>Graph extraction agent: \<^verbatim>\<open>S3GraphStorage._store_json_with_retry\<close>\<close>

text \<open>
  The fields of \<^verbatim>\<open>S3GraphStorage\<close> that the retry loop reads, with the values that
  \<^verbatim>\<open>__init__\<close> gives them.
\<close>

record S3GraphStorage =
  max_retries :: nat
  base_delay :: real

definition S3GraphStorage_init :: S3GraphStorage where
  "S3GraphStorage_init = \<lparr> max_retries = 3, base_delay = 1 \<rparr>"

text \<open>
  The S3 service is outside the program: \<open>put attempt\<close> is the outcome of the
  \<^verbatim>\<open>put_object\<close> call made in iteration \<open>attempt\<close> of the loop (counted from \<open>0\<close>), which
  returns, raises \<^verbatim>\<open>ClientError\<close> or \<^verbatim>\<open>BotoCoreError\<close> (the exceptions the loop catches),
  or raises something else. The function's effects are the trace of its calls to
  \<^verbatim>\<open>put_object\<close> and \<^verbatim>\<open>time.sleep\<close>.
\<close>

datatype put_outcome = Put_ok | Put_boto_error | Put_other_error

datatype storage_event = Put_object nat | Sleep real

datatype store_outcome = Returned | Raised_S3StorageError | Raised_other

fun store_attempts ::
  "S3GraphStorage \<Rightarrow> (nat \<Rightarrow> put_outcome) \<Rightarrow> nat list \<Rightarrow> store_outcome \<times> storage_event list" where
  "store_attempts self put [] = (Returned, [])"
| "store_attempts self put (attempt # rest) =
     (case put attempt of
        Put_ok \<Rightarrow> (Returned, [Put_object attempt])
      | Put_other_error \<Rightarrow> (Raised_other, [Put_object attempt])
      | Put_boto_error \<Rightarrow>
          if attempt = max_retries self - 1 then (Raised_S3StorageError, [Put_object attempt])
          else
            (let delay = base_delay self * 2 ^ attempt;
                 (outcome, events) = store_attempts self put rest
             in (outcome, Put_object attempt # Sleep delay # events)))"

text \<open>
  \<^verbatim>\<open>json.dumps\<close> runs before the loop; \<open>dumps_raises\<close> tells whether it raises on the data.
\<close>

definition store_json_with_retry ::
  "S3GraphStorage \<Rightarrow> bool \<Rightarrow> (nat \<Rightarrow> put_outcome) \<Rightarrow> store_outcome \<times> storage_event list" where
  "store_json_with_retry self dumps_raises put =
     (if dumps_raises then (Raised_other, [])
      else store_attempts self put [0..<max_retries self])"

fun is_put_object :: "storage_event \<Rightarrow> bool" where
  "is_put_object (Put_object _) = True"
| "is_put_object (Sleep _) = False"

text \<open>
  A concrete environment for evaluating the parser: the digest is the identity (so an id
  shows the string that is hashed), \<^verbatim>\<open>float\<close> reads the strings \<^verbatim>\<open>nan\<close> and \<^verbatim>\<open>0.25\<close>, and
  the attribute builders return an empty dict.
\<close>

definition example_environment :: environment where
  "example_environment =
     \<lparr> sha256_hexdigest = (\<lambda>s. s),
       py_str = (\<lambda>v. ''?''),
       float_of_string = (\<lambda>s. if s = ''nan'' then Some NaN
                                else if s = ''0.25'' then Some (Fin (1 / 4)) else None),
       build_node_attributes = (\<lambda>h. Some (PDict [])),
       build_edge_attributes = (\<lambda>h. Some (PDict [])) \<rparr>"

section \<open>File analyzer\<close>

text \<open>
  \<^verbatim>\<open>enhanced_file_analyzer.py\<close>, \<^verbatim>\<open>FileAnalyzer.analyze_content_complexity\<close>, with the string
  operations it uses. \<^verbatim>\<open>content.split()\<close> splits at runs of whitespace and yields no empty
  word; the word under construction is kept reversed in \<open>cur\<close>.
\<close>

fun split_words :: "string \<Rightarrow> string \<Rightarrow> string list" where
  "split_words cur [] = (if cur = [] then [] else [rev cur])"
| "split_words cur (c # cs) =
     (if is_space c then (if cur = [] then split_words [] cs else rev cur # split_words [] cs)
      else split_words (c # cur) cs)"

definition split_whitespace :: "string \<Rightarrow> string list" where
  "split_whitespace s = split_words [] s"

definition starts_with :: "string \<Rightarrow> string \<Rightarrow> bool" where
  "starts_with sub s \<longleftrightarrow> take (length sub) s = sub"

text \<open>
  \<^verbatim>\<open>s.count(sub)\<close> for a non-empty \<open>sub\<close>: the occurrences found from left to right without
  overlap; \<open>skip\<close> is the number of characters still covered by the last occurrence.
  \<^verbatim>\<open>sub in s\<close> is the substring test.
\<close>

fun count_from :: "string \<Rightarrow> nat \<Rightarrow> string \<Rightarrow> nat" where
  "count_from sub skip [] = 0"
| "count_from sub skip (c # cs) =
     (if skip = 0 \<and> starts_with sub (c # cs) then 1 + count_from sub (length sub - 1) cs
      else count_from sub (skip - 1) cs)"

definition str_count :: "string \<Rightarrow> string \<Rightarrow> nat" where
  "str_count s sub = count_from sub 0 s"

fun contains :: "string \<Rightarrow> string \<Rightarrow> bool" where
  "contains [] sub = (sub = [])"
| "contains (c # cs) sub = (starts_with sub (c # cs) \<or> contains cs sub)"

text \<open>
  \<^verbatim>\<open>len(re.split(r'[.!?]+', content))\<close> is one more than the number of maximal runs of the
  characters \<^verbatim>\<open>.\<close>, \<^verbatim>\<open>!\<close> and \<^verbatim>\<open>?\<close>; \<^verbatim>\<open>len(content.split('\n\n'))\<close> is one more than the number
  of occurrences of two line feeds.
\<close>

fun count_runs :: "(char \<Rightarrow> bool) \<Rightarrow> bool \<Rightarrow> string \<Rightarrow> nat" where
  "count_runs P inside [] = 0"
| "count_runs P inside (c # cs) =
     (if P c then (if inside then 0 else 1) + count_runs P True cs else count_runs P False cs)"

definition word_count :: "string \<Rightarrow> nat" where
  "word_count content = length (split_whitespace content)"

definition sentence_count :: "string \<Rightarrow> nat" where
  "sentence_count content = count_runs (\<lambda>c. c \<in> set ''.!?'') False content + 1"

definition paragraph_count :: "string \<Rightarrow> nat" where
  "paragraph_count content = str_count content [CHR 0x0A, CHR 0x0A] + 1"

text \<open>
  \<^verbatim>\<open>re.findall(r'^([A-Za-z\s]+):\s*', content, re.MULTILINE)\<close>. A match starts at a line
  start (the start of the text or just after a line feed), takes the longest run of letters
  and whitespace, which must not be empty and must be followed by a colon, and then the
  whitespace after the colon; the search goes on where the match ended. \<open>Idle ls\<close> looks
  for a start (\<open>ls\<close>: the position is a line start), \<open>InRun acc\<close> reads the run (kept
  reversed), \<open>AfterMatch ls\<close> skips the whitespace after the colon. When a run ends in
  a character other than a colon, no line start inside the run can match either, since
  its run ends at the same character.
\<close>

definition is_letter :: "char \<Rightarrow> bool" where
  "is_letter c \<longleftrightarrow> (CHR ''A'' \<le> c \<and> c \<le> CHR ''Z'') \<or> (CHR ''a'' \<le> c \<and> c \<le> CHR ''z'')"

definition name_char :: "char \<Rightarrow> bool" where
  "name_char c \<longleftrightarrow> is_letter c \<or> is_space c"

datatype scan_mode = Idle bool | InRun string | AfterMatch bool

fun find_speakers :: "scan_mode \<Rightarrow> string \<Rightarrow> string list" where
  "find_speakers mode [] = []"
| "find_speakers (Idle ls) (c # cs) =
     (if ls \<and> name_char c then find_speakers (InRun [c]) cs
      else find_speakers (Idle (c = CHR 0x0A)) cs)"
| "find_speakers (InRun acc) (c # cs) =
     (if name_char c then find_speakers (InRun (c # acc)) cs
      else if c = CHR '':'' then rev acc # find_speakers (AfterMatch False) cs
      else find_speakers (Idle False) cs)"
| "find_speakers (AfterMatch ls) (c # cs) =
     (if is_space c then find_speakers (AfterMatch (c = CHR 0x0A)) cs
      else if ls \<and> name_char c then find_speakers (InRun [c]) cs
      else find_speakers (Idle False) cs)"

definition speaker_count :: "string \<Rightarrow> nat" where
  "speaker_count content = length (remdups (find_speakers (Idle True) content))"

definition technical_keywords :: "string list" where
  "technical_keywords = [''technology'', ''software'', ''engineering'', ''development'',
     ''system'', ''algorithm'']"

definition technical_hits :: "string \<Rightarrow> nat" where
  "technical_hits content = length (filter (contains (lower content)) technical_keywords)"

text \<open>
  The score itself, over the reals. \<^verbatim>\<open>sentence_count\<close> is computed by the code and not
  used afterwards.
\<close>

definition analyze_content_complexity :: "string \<Rightarrow> real" where
  "analyze_content_complexity content =
     (let word_complexity = min (real (word_count content) / 2000) 1 * (3 / 10);
          structure_complexity = min (real (speaker_count content) / 5) 1 * (3 / 10);
          length_complexity = min (real (paragraph_count content) / 20) 1 * (2 / 10);
          technical_score = real (technical_hits content) / real (length technical_keywords);
          technical_complexity = technical_score * (2 / 10);
          total_complexity = word_complexity + structure_complexity + length_complexity
                               + technical_complexity
      in min total_complexity 1)"

section \<open>Needs analysis agent\<close>

text \<open>
  \<^verbatim>\<open>needs_analysis_agent.py\<close>. The enum \<^verbatim>\<open>HumanNeed\<close> in its iteration order. The code mixes
  two kinds of numbers, \<^verbatim>\<open>float\<close> and \<^verbatim>\<open>Decimal\<close>; both carry a real number here, and the
  product of a \<^verbatim>\<open>float\<close> and a \<^verbatim>\<open>Decimal\<close> raises \<^verbatim>\<open>TypeError\<close>, as in Python.
\<close>

datatype HumanNeed = CERTAINTY | VARIETY | SIGNIFICANCE | CONNECTION | GROWTH | CONTRIBUTION

definition human_needs :: "HumanNeed list" where
  "human_needs = [CERTAINTY, VARIETY, SIGNIFICANCE, CONNECTION, GROWTH, CONTRIBUTION]"

fun human_need_value :: "HumanNeed \<Rightarrow> string" where
  "human_need_value CERTAINTY = ''certainty''"
| "human_need_value VARIETY = ''variety''"
| "human_need_value SIGNIFICANCE = ''significance''"
| "human_need_value CONNECTION = ''connection''"
| "human_need_value GROWTH = ''growth''"
| "human_need_value CONTRIBUTION = ''contribution''"

datatype pynum = PyFloat real | PyDecimal real

datatype type_error = TypeError

text \<open>\<^verbatim>\<open>InterviewNeedsAnalyzer.needs_indicators\<close>.\<close>

fun need_keywords :: "HumanNeed \<Rightarrow> string list" where
  "need_keywords CERTAINTY = [''security'', ''stable'', ''predictable'', ''safe'', ''routine'',
     ''control'', ''plan'', ''structure'']"
| "need_keywords VARIETY = [''adventure'', ''new'', ''different'', ''change'', ''explore'',
     ''variety'', ''diverse'', ''exciting'']"
| "need_keywords SIGNIFICANCE = [''important'', ''special'', ''unique'', ''recognition'',
     ''achievement'', ''success'', ''impact'', ''leader'']"
| "need_keywords CONNECTION = [''family'', ''friends'', ''team'', ''community'', ''relationship'',
     ''together'', ''belong'', ''love'']"
| "need_keywords GROWTH = [''learn'', ''develop'', ''grow'', ''improve'', ''progress'', ''evolve'',
     ''better'', ''skills'']"
| "need_keywords CONTRIBUTION = [''help'', ''serve'', ''give'', ''contribute'', ''impact'',
     ''difference'', ''society'', ''world'']"

fun need_phrases :: "HumanNeed \<Rightarrow> string list" where
  "need_phrases CERTAINTY = [''need to know'', ''want certainty'', ''feel secure'', ''have control'',
     ''planned approach'']"
| "need_phrases VARIETY = [''try new things'', ''love variety'', ''get bored easily'', ''need change'',
     ''different experiences'']"
| "need_phrases SIGNIFICANCE = [''make a difference'', ''be recognized'', ''stand out'',
     ''achieve something'', ''be remembered'']"
| "need_phrases CONNECTION = [''work with others'', ''part of team'', ''close relationships'',
     ''feel connected'', ''belong to'']"
| "need_phrases GROWTH = [''keep learning'', ''personal growth'', ''develop skills'', ''get better'',
     ''continuous improvement'']"
| "need_phrases CONTRIBUTION = [''help others'', ''give back'', ''make impact'', ''serve community'',
     ''contribute to'']"

fun need_context_clues :: "HumanNeed \<Rightarrow> string list" where
  "need_context_clues CERTAINTY = [''risk aversion'', ''detailed planning'', ''systematic approach'']"
| "need_context_clues VARIETY = [''career changes'', ''multiple interests'', ''travel experiences'']"
| "need_context_clues SIGNIFICANCE = [''leadership roles'', ''awards'', ''achievements'',
     ''public speaking'']"
| "need_context_clues CONNECTION = [''team projects'', ''mentoring'', ''collaboration'',
     ''family mentions'']"
| "need_context_clues GROWTH = [''education'', ''training'', ''skill development'',
     ''career progression'']"
| "need_context_clues CONTRIBUTION = [''volunteering'', ''social causes'', ''mentoring others'',
     ''community service'']"

text \<open>\<^verbatim>\<open>analyze_needs_keywords\<close>: the keyword-matching score of a text for one need.\<close>

definition analyze_needs_keywords :: "string \<Rightarrow> HumanNeed \<Rightarrow> real" where
  "analyze_needs_keywords content need =
     (let content_lower = lower content;
          word_count = length (split_whitespace content);
          keyword_matches = sum_list (map (str_count content_lower) (need_keywords need));
          keyword_score = min (real keyword_matches / max (real word_count / 100) 1) 1 * (4 / 10);
          phrase_matches = length (filter (contains content_lower) (need_phrases need));
          phrase_score = min (real phrase_matches / max (real (length (need_phrases need))) 1) 1 * (3 / 10);
          context_matches = length (filter (contains content_lower) (need_context_clues need));
          context_score =
            min (real context_matches / max (real (length (need_context_clues need))) 1) 1 * (3 / 10);
          score = keyword_score + phrase_score + context_score
      in min score 1)"

text \<open>
  \<^verbatim>\<open>analyze_needs_with_llm\<close>, after the call of the model: \<open>Generation m\<close> is a response
  whose \<^verbatim>\<open>generation\<close> field parsed as JSON, with the score \<open>m need\<close> it has for a need;
  \<open>Generation_unparsable\<close> is a response that did not parse. Every score returned is a
  \<^verbatim>\<open>Decimal\<close>.
\<close>

datatype llm_generation = Generation_unparsable | Generation "HumanNeed \<rightharpoonup> real"

fun fallback_score :: "HumanNeed \<Rightarrow> real" where
  "fallback_score CERTAINTY = 3 / 10"
| "fallback_score VARIETY = 4 / 10"
| "fallback_score SIGNIFICANCE = 5 / 10"
| "fallback_score CONNECTION = 6 / 10"
| "fallback_score GROWTH = 7 / 10"
| "fallback_score CONTRIBUTION = 2 / 10"

fun analyze_needs_with_llm :: "llm_generation \<Rightarrow> HumanNeed \<rightharpoonup> pynum" where
  "analyze_needs_with_llm Generation_unparsable need = Some (PyDecimal (fallback_score need))"
| "analyze_needs_with_llm (Generation m) need =
     (case m need of
        Some score \<Rightarrow> Some (PyDecimal (max 0 (min score 1)))
      | None \<Rightarrow> Some (PyDecimal (3 / 10)))"

text \<open>
  \<^verbatim>\<open>combine_needs_scores\<close>. \<^verbatim>\<open>scores.get(need, 0.0)\<close> gives the float \<open>0.0\<close> for a missing
  entry; \<^verbatim>\<open>0.3 * x\<close> and \<^verbatim>\<open>0.7 * y\<close> multiply a float with the entry. The result dict has the
  six needs in the order of the enum.
\<close>

definition score_get :: "(HumanNeed \<rightharpoonup> pynum) \<Rightarrow> HumanNeed \<Rightarrow> pynum" where
  "score_get scores need = (case scores need of Some v \<Rightarrow> v | None \<Rightarrow> PyFloat 0)"

fun float_times :: "real \<Rightarrow> pynum \<Rightarrow> type_error + real" where
  "float_times a (PyFloat x) = Inr (a * x)"
| "float_times a (PyDecimal x) = Inl TypeError"

definition combined_score ::
  "(HumanNeed \<rightharpoonup> pynum) \<Rightarrow> (HumanNeed \<rightharpoonup> pynum) \<Rightarrow> HumanNeed \<Rightarrow> type_error + real" where
  "combined_score keyword_scores llm_scores need =
     (let keyword_score = score_get keyword_scores need;
          llm_score = score_get llm_scores need
      in case float_times (3 / 10) keyword_score of
           Inl e \<Rightarrow> Inl e
         | Inr a \<Rightarrow> (case float_times (7 / 10) llm_score of
                       Inl e \<Rightarrow> Inl e
                     | Inr b \<Rightarrow> Inr (a + b)))"

fun combine_loop ::
  "(HumanNeed \<rightharpoonup> pynum) \<Rightarrow> (HumanNeed \<rightharpoonup> pynum) \<Rightarrow> HumanNeed list
     \<Rightarrow> type_error + (HumanNeed \<times> real) list" where
  "combine_loop keyword_scores llm_scores [] = Inr []"
| "combine_loop keyword_scores llm_scores (need # rest) =
     (case combined_score keyword_scores llm_scores need of
        Inl e \<Rightarrow> Inl e
      | Inr combined \<Rightarrow>
          (case combine_loop keyword_scores llm_scores rest of
             Inl e \<Rightarrow> Inl e
           | Inr combined_scores \<Rightarrow> Inr ((need, combined) # combined_scores)))"

definition combine_needs_scores ::
  "(HumanNeed \<rightharpoonup> pynum) \<Rightarrow> (HumanNeed \<rightharpoonup> pynum) \<Rightarrow> type_error + (HumanNeed \<times> real) list" where
  "combine_needs_scores keyword_scores llm_scores = combine_loop keyword_scores llm_scores human_needs"

text \<open>
  The scores of \<^verbatim>\<open>analyze_needs_from_interview\<close>: the keyword scores are floats, the scores
  of \<^verbatim>\<open>analyze_needs_with_llm\<close> are \<^verbatim>\<open>Decimal\<close>s.
\<close>

definition keyword_scores_of :: "string \<Rightarrow> HumanNeed \<rightharpoonup> pynum" where
  "keyword_scores_of content = (\<lambda>need. Some (PyFloat (analyze_needs_keywords content need)))"

definition analyze_needs_from_interview_scores ::
  "string \<Rightarrow> llm_generation \<Rightarrow> type_error + (HumanNeed \<times> real) list" where
  "analyze_needs_from_interview_scores content generation =
     combine_needs_scores (keyword_scores_of content) (analyze_needs_with_llm generation)"

text \<open>A score map with float entries, given by the real numbers they carry.\<close>

definition float_scores :: "(HumanNeed \<rightharpoonup> real) \<Rightarrow> HumanNeed \<rightharpoonup> pynum" where
  "float_scores m = (\<lambda>need. map_option PyFloat (m need))"

definition score_or_zero :: "(HumanNeed \<rightharpoonup> real) \<Rightarrow> HumanNeed \<Rightarrow> real" where
  "score_or_zero m need = (case m need of Some x \<Rightarrow> x | None \<Rightarrow> 0)"

text \<open>
  The path the Lambda handler takes: \<^verbatim>\<open>analyze_human_needs\<close> with
  \<^verbatim>\<open>enhanced_response_parser\<close>. \<open>Llm_needs_scores d\<close> is a response in which the parser
  found the scores \<open>d\<close> (the \<^verbatim>\<open>needs_scores\<close> object of the JSON, or the scores its
  regular expressions read from the text, possibly none); \<open>Llm_failed\<close> is a call or a
  parse that raised. Needs are named by strings on this path.
\<close>

datatype llm_response = Llm_failed | Llm_needs_scores "(string \<times> real) list"

definition all_needs :: "string list" where
  "all_needs = [''certainty'', ''variety'', ''significance'', ''connection'', ''growth'',
     ''contribution'']"

definition get_content_aware_fallback_score :: "string \<Rightarrow> string \<Rightarrow> real" where
  "get_content_aware_fallback_score need content_type =
     (let base_score = 4 / 10 in
      if content_type = ''financial_advice'' then
        (case map_of [(''certainty'', 8 / 10), (''growth'', 6 / 10), (''significance'', 5 / 10),
                      (''contribution'', 5 / 10), (''connection'', 4 / 10), (''variety'', 3 / 10)]
                need of Some v \<Rightarrow> v | None \<Rightarrow> base_score)
      else if content_type = ''interview_transcript'' then
        (case map_of [(''significance'', 8 / 10), (''growth'', 7 / 10), (''connection'', 6 / 10),
                      (''variety'', 5 / 10), (''certainty'', 4 / 10), (''contribution'', 4 / 10)]
                need of Some v \<Rightarrow> v | None \<Rightarrow> base_score)
      else base_score)"

text \<open>
  \<^verbatim>\<open>get_content_aware_scores\<close>, the scores after a failure. \<open>add_to k d m\<close> is
  \<^verbatim>\<open>m[k] += d\<close> on a dict that has the key.
\<close>

definition add_to :: "string \<Rightarrow> real \<Rightarrow> (string \<times> real) list \<Rightarrow> (string \<times> real) list" where
  "add_to k d m = map (\<lambda>(k', v). if k' = k then (k', v + d) else (k', v)) m"

definition adjust_for_theme :: "string \<Rightarrow> (string \<times> real) list \<Rightarrow> (string \<times> real) list" where
  "adjust_for_theme theme base_scores =
     (if contains (lower theme) ''leadership''
      then add_to ''connection'' (1 / 10) (add_to ''significance'' (2 / 10) base_scores)
      else if contains (lower theme) ''innovation'' \<or> contains (lower theme) ''technology''
      then add_to ''variety'' (1 / 10) (add_to ''growth'' (2 / 10) base_scores)
      else if contains (lower theme) ''risk'' \<or> contains (lower theme) ''security''
      then add_to ''certainty'' (2 / 10) base_scores
      else base_scores)"

definition get_content_aware_scores :: "string \<Rightarrow> string list \<Rightarrow> (string \<times> real) list" where
  "get_content_aware_scores content_type themes =
     (let base_scores = map (\<lambda>need. (need, 4 / 10)) all_needs;
          base_scores =
            (if content_type = ''financial_advice''
             then AList.update ''significance'' (5 / 10) (AList.update ''growth'' (6 / 10)
                    (AList.update ''certainty'' (8 / 10) base_scores))
             else if content_type = ''interview_transcript''
             then AList.update ''variety'' (5 / 10) (AList.update ''connection'' (6 / 10)
                    (AList.update ''growth'' (7 / 10) (AList.update ''significance'' (8 / 10)
                       base_scores)))
             else base_scores);
          base_scores = fold adjust_for_theme themes base_scores
      in map (\<lambda>(need, v). (need, min (max v 0) 1)) base_scores)"

text \<open>
  The \<^verbatim>\<open>needs_scores\<close> of the result of \<^verbatim>\<open>analyze_human_needs\<close>: the parser's scores,
  completed by the fallback score for every need they lack (a new key goes to the end of
  the dict); after a failure, the content-aware scores. The handler's conversions of the
  result to \<^verbatim>\<open>Decimal\<close> and back to \<^verbatim>\<open>float\<close> keep the numbers.
\<close>

definition ensure_need :: "string \<Rightarrow> string \<Rightarrow> (string \<times> real) list \<Rightarrow> (string \<times> real) list" where
  "ensure_need content_type need needs_scores =
     (if map_of needs_scores need = None
      then AList.update need (get_content_aware_fallback_score need content_type) needs_scores
      else needs_scores)"

definition analyze_human_needs_scores ::
  "llm_response \<Rightarrow> string \<Rightarrow> string list \<Rightarrow> (string \<times> real) list" where
  "analyze_human_needs_scores response content_type themes =
     (case response of
        Llm_failed \<Rightarrow> get_content_aware_scores content_type themes
      | Llm_needs_scores needs_scores \<Rightarrow> fold (ensure_need content_type) all_needs needs_scores)"

section \<open>Properties\<close>

lemma sum_list_unit_bounds:
  fixes xs :: "real list"
  assumes "\<forall>x\<in>set xs. 0 \<le> x \<and> x \<le> 1"
  shows "0 \<le> sum_list xs \<and> sum_list xs \<le> real (length xs)"
  using assms by (induction xs) auto

lemma mean_unit_bounds:
  fixes xs :: "real list"
  assumes "\<forall>x\<in>set xs. 0 \<le> x \<and> x \<le> 1" and "xs \<noteq> []"
  shows "0 \<le> sum_list xs / real (length xs) \<and> sum_list xs / real (length xs) \<le> 1"
proof -
  have len: "0 < real (length xs)" using assms(2) by simp
  from sum_list_unit_bounds [OF assms(1)] len show ?thesis
    by (simp add: divide_le_eq)
qed

text \<open>
  Claim C5. With more than one node the graph density is the number of edges divided by
  \<open>n * (n - 1)\<close>, where \<open>n\<close> is the number of nodes; with at most one node it is \<open>0\<close>.
\<close>

theorem graph_density_formula:
  "(length nodes > 1 \<longrightarrow>
      graph_density (generate_graph_insights nodes edges)
        = real (length edges) / (real (length nodes) * (real (length nodes) - 1)))
   \<and> (length nodes \<le> 1 \<longrightarrow> graph_density (generate_graph_insights nodes edges) = 0)"
  by (auto simp: generate_graph_insights_def Let_def of_nat_diff)


theorem graph_density_formula_witness:
  "length [node_of ''a'' ''A'' PERSON 1, node_of ''b'' ''B'' SKILL 1, node_of ''c'' ''C'' TOPIC 1] > 1
   \<and> graph_density (generate_graph_insights
         [node_of ''a'' ''A'' PERSON 1, node_of ''b'' ''B'' SKILL 1, node_of ''c'' ''C'' TOPIC 1]
         [edge_of ''a'' ''b'' DEMONSTRATES 1, edge_of ''a'' ''c'' DISCUSSES 1]) = 1 / 3
   \<and> length [node_of ''a'' ''A'' PERSON 1] \<le> 1
   \<and> graph_density (generate_graph_insights [node_of ''a'' ''A'' PERSON 1]
         [edge_of ''a'' ''a'' RELATES_TO 1]) = 0"
  using graph_density_formula
          [of "[node_of ''a'' ''A'' PERSON 1, node_of ''b'' ''B'' SKILL 1, node_of ''c'' ''C'' TOPIC 1]"
              "[edge_of ''a'' ''b'' DEMONSTRATES 1, edge_of ''a'' ''c'' DISCUSSES 1]"]
        graph_density_formula
          [of "[node_of ''a'' ''A'' PERSON 1]" "[edge_of ''a'' ''a'' RELATES_TO 1]"]
  by simp

subsection \<open>Quality score\<close>

lemma inj_node_type_value: "inj node_type_value"
proof (rule injI)
  fix x y assume "node_type_value x = node_type_value y"
  then show "x = y" by (cases x; cases y; simp)
qed

lemma inj_edge_type_value: "inj edge_type_value"
proof (rule injI)
  fix x y assume "edge_type_value x = edge_type_value y"
  then show "x = y" by (cases x; cases y; simp)
qed

lemma distinct_node_type_values:
  "length (remdups (map (\<lambda>n. node_type_value (n_node_type n)) nodes))
     = card (n_node_type ` set nodes)"
proof -
  have "set (map (\<lambda>n. node_type_value (n_node_type n)) nodes)
          = node_type_value ` (n_node_type ` set nodes)"
    by auto
  then show ?thesis
    by (simp only: length_remdups_card_conv card_image [OF inj_on_subset [OF inj_node_type_value subset_UNIV]])
qed

lemma distinct_edge_type_values:
  "length (remdups (map (\<lambda>e. edge_type_value (e_edge_type e)) edges))
     = card (e_edge_type ` set edges)"
proof -
  have "set (map (\<lambda>e. edge_type_value (e_edge_type e)) edges)
          = edge_type_value ` (e_edge_type ` set edges)"
    by auto
  then show ?thesis
    by (simp only: length_remdups_card_conv card_image [OF inj_on_subset [OF inj_edge_type_value subset_UNIV]])
qed

lemma weighted_unit_bounds:
  fixes a b c d :: real
  assumes "0 \<le> a" "a \<le> 1" "0 \<le> b" "b \<le> 1" "0 \<le> c" "c \<le> 1" "0 \<le> d" "d \<le> 1"
  shows "0 \<le> 3 / 10 * a + 3 / 10 * b + 2 / 10 * c + 2 / 10 * d"
    and "3 / 10 * a + 3 / 10 * b + 2 / 10 * c + 2 / 10 * d \<le> 1"
  using assms by simp_all

lemma quality_score_nonempty:
  assumes "nodes \<noteq> []"
  shows "calculate_quality_score nodes edges =
           3 / 10 * (sum_list (map n_confidence nodes) / real (length nodes))
         + 3 / 10 * (if edges = [] then 0 else sum_list (map e_confidence edges) / real (length edges))
         + 2 / 10 * min (real (card (n_node_type ` set nodes)) / 6) 1
         + 2 / 10 * min (real (card (e_edge_type ` set edges)) / 5) 1"
proof (cases "edges = []")
  case True
  with assms show ?thesis
    by (simp add: calculate_quality_score_def Let_def distinct_node_type_values)
next
  case False
  with assms show ?thesis
    by (simp add: calculate_quality_score_def Let_def distinct_node_type_values
          distinct_edge_type_values)
qed

lemma quality_score_unit_bounds:
  assumes n: "\<forall>n\<in>set nodes. 0 \<le> n_confidence n \<and> n_confidence n \<le> 1"
      and e: "\<forall>e\<in>set edges. 0 \<le> e_confidence e \<and> e_confidence e \<le> 1"
  shows "0 \<le> calculate_quality_score nodes edges \<and> calculate_quality_score nodes edges \<le> 1"
proof (cases "nodes = []")
  case True
  then show ?thesis by (simp add: calculate_quality_score_def)
next
  case False
  define a where "a = sum_list (map n_confidence nodes) / real (length nodes)"
  define b where
    "b = (if edges = [] then 0 else sum_list (map e_confidence edges) / real (length edges))"
  define c where "c = min (real (card (n_node_type ` set nodes)) / 6) 1"
  define d where "d = min (real (card (e_edge_type ` set edges)) / 5) 1"
  have a: "0 \<le> a \<and> a \<le> 1"
    using mean_unit_bounds [of "map n_confidence nodes"] n False by (simp add: a_def)
  have b: "0 \<le> b \<and> b \<le> 1"
  proof (cases "edges = []")
    case True then show ?thesis by (simp add: b_def)
  next
    case False
    then show ?thesis
      using mean_unit_bounds [of "map e_confidence edges"] e by (simp add: b_def)
  qed
  have c: "0 \<le> c \<and> c \<le> 1" by (simp add: c_def)
  have d: "0 \<le> d \<and> d \<le> 1" by (simp add: d_def)
  have q: "calculate_quality_score nodes edges
             = 3 / 10 * a + 3 / 10 * b + 2 / 10 * c + 2 / 10 * d"
    unfolding a_def b_def c_def d_def by (rule quality_score_nonempty [OF False])
  show ?thesis
    unfolding q using weighted_unit_bounds [of a b c d] a b c d by blast
qed


text \<open>
  Claim C4, amended. For an empty node list the quality score is \<open>0\<close>. For a non-empty one
  it is \<open>0.3\<close> times the mean node confidence plus \<open>0.3\<close> times the mean edge confidence
  (\<open>0\<close> without edges) plus \<open>0.2 * min (distinct node types / 6) 1\<close> plus
  \<open>0.2 * min (distinct edge types / 5) 1\<close>. The score lies between \<open>0\<close> and \<open>1\<close> when every
  node and edge confidence does; the function itself does not clamp the confidences.
\<close>

theorem calculate_quality_score_weighted_average:
  "(nodes = [] \<longrightarrow> calculate_quality_score nodes edges = 0)
   \<and> (nodes \<noteq> [] \<longrightarrow>
        calculate_quality_score nodes edges =
          3 / 10 * (sum_list (map n_confidence nodes) / real (length nodes))
        + 3 / 10 * (if edges = [] then 0
                    else sum_list (map e_confidence edges) / real (length edges))
        + 2 / 10 * min (real (card (n_node_type ` set nodes)) / 6) 1
        + 2 / 10 * min (real (card (e_edge_type ` set edges)) / 5) 1)
   \<and> ((\<forall>n\<in>set nodes. 0 \<le> n_confidence n \<and> n_confidence n \<le> 1)
        \<and> (\<forall>e\<in>set edges. 0 \<le> e_confidence e \<and> e_confidence e \<le> 1)
        \<longrightarrow> 0 \<le> calculate_quality_score nodes edges
            \<and> calculate_quality_score nodes edges \<le> 1)"
proof (intro conjI impI)
  assume "nodes = []"
  then show "calculate_quality_score nodes edges = 0"
    by (simp add: calculate_quality_score_def)
next
  assume "nodes \<noteq> []"
  then show "calculate_quality_score nodes edges =
          3 / 10 * (sum_list (map n_confidence nodes) / real (length nodes))
        + 3 / 10 * (if edges = [] then 0
                    else sum_list (map e_confidence edges) / real (length edges))
        + 2 / 10 * min (real (card (n_node_type ` set nodes)) / 6) 1
        + 2 / 10 * min (real (card (e_edge_type ` set edges)) / 5) 1"
    by (rule quality_score_nonempty)
next
  assume h: "(\<forall>n\<in>set nodes. 0 \<le> n_confidence n \<and> n_confidence n \<le> 1)
        \<and> (\<forall>e\<in>set edges. 0 \<le> e_confidence e \<and> e_confidence e \<le> 1)"
  then show "0 \<le> calculate_quality_score nodes edges"
    using quality_score_unit_bounds [of nodes edges] by blast
  from h show "calculate_quality_score nodes edges \<le> 1"
    using quality_score_unit_bounds [of nodes edges] by blast
qed

theorem calculate_quality_score_weighted_average_witness:
  "calculate_quality_score ([] :: EnhancedHyperNode list) [edge_of ''a'' ''b'' DEMONSTRATES (1 / 2)] = 0
   \<and> [node_of ''a'' ''Ann'' PERSON (4 / 5), node_of ''b'' ''Rust'' SKILL (3 / 5)] \<noteq> []
   \<and> n_confidence (node_of ''a'' ''Ann'' PERSON (4 / 5)) = 4 / 5
   \<and> n_confidence (node_of ''b'' ''Rust'' SKILL (3 / 5)) = 3 / 5
   \<and> e_confidence (edge_of ''a'' ''b'' DEMONSTRATES (1 / 2)) = 1 / 2
   \<and> calculate_quality_score
         [node_of ''a'' ''Ann'' PERSON (4 / 5), node_of ''b'' ''Rust'' SKILL (3 / 5)]
         [edge_of ''a'' ''b'' DEMONSTRATES (1 / 2)] = 7 / 15
   \<and> 0 \<le> calculate_quality_score
         [node_of ''a'' ''Ann'' PERSON (4 / 5), node_of ''b'' ''Rust'' SKILL (3 / 5)]
         [edge_of ''a'' ''b'' DEMONSTRATES (1 / 2)]
   \<and> calculate_quality_score
         [node_of ''a'' ''Ann'' PERSON (4 / 5), node_of ''b'' ''Rust'' SKILL (3 / 5)]
         [edge_of ''a'' ''b'' DEMONSTRATES (1 / 2)] \<le> 1"
  using calculate_quality_score_weighted_average
          [of "[] :: EnhancedHyperNode list" "[edge_of ''a'' ''b'' DEMONSTRATES (1 / 2)]"]
        calculate_quality_score_weighted_average
          [of "[node_of ''a'' ''Ann'' PERSON (4 / 5), node_of ''b'' ''Rust'' SKILL (3 / 5)]"
              "[edge_of ''a'' ''b'' DEMONSTRATES (1 / 2)]"]
  by (simp add: node_of_def edge_of_def)

text \<open>
  The claim as written, that the score always lies in \<open>[0, 1]\<close>, fails for a node whose
  confidence is \<open>4\<close>: the score is \<open>0.3 * 4 + 0.2 * (1 / 6)\<close>.
\<close>

theorem calculate_quality_score_range_counterexample:
  "calculate_quality_score [node_of ''a'' ''Ann'' PERSON 4] ([] :: EnhancedHyperEdge list) = 37 / 30
   \<and> \<not> calculate_quality_score [node_of ''a'' ''Ann'' PERSON 4] ([] :: EnhancedHyperEdge list) \<le> 1"
  by (simp add: calculate_quality_score_def node_of_def Let_def)

subsection \<open>Most common relationship\<close>

lemma py_max_from_fold: "py_max_from m xs = fold max xs m"
  by (induction xs arbitrary: m) (auto simp: max_def)

lemma py_max_from_Max: "py_max_from m xs = Max (set (m # xs))"
  by (simp only: py_max_from_fold Max.set_eq_fold)

lemma most_common_relationship_Max:
  assumes "edges \<noteq> []"
  shows "most_common_relationship (generate_graph_insights nodes edges)
           = Max (edge_type_value ` e_edge_type ` set edges)"
proof -
  obtain e es where edges: "edges = e # es" using assms by (cases edges) auto
  have "set (map (\<lambda>e. edge_type_value (e_edge_type e)) edges)
          = edge_type_value ` e_edge_type ` set edges"
    by auto
  then show ?thesis
    using py_max_from_Max [of "edge_type_value (e_edge_type e)"
                              "map (\<lambda>e. edge_type_value (e_edge_type e)) es"]
    by (simp add: generate_graph_insights_def Let_def edges)
qed

text \<open>
  Claim C10. For a non-empty edge list \<^verbatim>\<open>most_common_relationship\<close> is the greatest
  edge-type string of the graph's edges in the lexicographic order of strings; it depends
  only on which edge types occur, not on how often. For an empty edge list it is \<^verbatim>\<open>none\<close>.
\<close>

theorem most_common_relationship_is_greatest_string:
  "(edges \<noteq> [] \<longrightarrow>
      most_common_relationship (generate_graph_insights nodes edges)
        = Max (edge_type_value ` e_edge_type ` set edges))
   \<and> (edges \<noteq> [] \<and> e_edge_type ` set edges = e_edge_type ` set edges' \<longrightarrow>
        most_common_relationship (generate_graph_insights nodes edges)
          = most_common_relationship (generate_graph_insights nodes' edges'))
   \<and> (edges = [] \<longrightarrow>
        most_common_relationship (generate_graph_insights nodes edges) = ''none'')"
proof (intro conjI impI)
  assume "edges \<noteq> []"
  then show "most_common_relationship (generate_graph_insights nodes edges)
        = Max (edge_type_value ` e_edge_type ` set edges)"
    by (rule most_common_relationship_Max)
next
  assume h: "edges \<noteq> [] \<and> e_edge_type ` set edges = e_edge_type ` set edges'"
  then have "edges' \<noteq> []" by auto
  with h show "most_common_relationship (generate_graph_insights nodes edges)
          = most_common_relationship (generate_graph_insights nodes' edges')"
    by (simp add: most_common_relationship_Max)
next
  assume "edges = []"
  then show "most_common_relationship (generate_graph_insights nodes edges) = ''none''"
    by (simp add: generate_graph_insights_def Let_def)
qed

theorem most_common_relationship_is_greatest_string_witness:
  "[edge_of ''a'' ''b'' RELATES_TO 1, edge_of ''b'' ''c'' RELATES_TO 1, edge_of ''a'' ''c'' USES 1] \<noteq> []
   \<and> e_edge_type ` set [edge_of ''a'' ''b'' RELATES_TO 1, edge_of ''b'' ''c'' RELATES_TO 1,
                          edge_of ''a'' ''c'' USES 1]
       = e_edge_type ` set [edge_of ''a'' ''c'' USES 1, edge_of ''a'' ''b'' RELATES_TO 1]
   \<and> most_common_relationship (generate_graph_insights ([] :: EnhancedHyperNode list)
         [edge_of ''a'' ''b'' RELATES_TO 1, edge_of ''b'' ''c'' RELATES_TO 1, edge_of ''a'' ''c'' USES 1])
       = ''uses''
   \<and> most_common_relationship (generate_graph_insights ([] :: EnhancedHyperNode list)
         [edge_of ''a'' ''c'' USES 1, edge_of ''a'' ''b'' RELATES_TO 1]) = ''uses''
   \<and> most_common_relationship (generate_graph_insights ([] :: EnhancedHyperNode list)
         ([] :: EnhancedHyperEdge list)) = ''none''"
  using most_common_relationship_is_greatest_string
          [of "[edge_of ''a'' ''b'' RELATES_TO 1, edge_of ''b'' ''c'' RELATES_TO 1,
                edge_of ''a'' ''c'' USES 1]"
              "[] :: EnhancedHyperNode list"
              "[edge_of ''a'' ''c'' USES 1, edge_of ''a'' ''b'' RELATES_TO 1]"
              "[] :: EnhancedHyperNode list"]
        most_common_relationship_is_greatest_string
          [of "[] :: EnhancedHyperEdge list" "[] :: EnhancedHyperNode list"
              "[] :: EnhancedHyperEdge list" "[] :: EnhancedHyperNode list"]
  by (simp add: edge_of_def insert_commute generate_graph_insights_def Let_def)

subsection \<open>Deduplication of entities\<close>

lemma pyfloat_less_irrefl: "\<not> pyfloat_less a a"
  by (cases a) simp_all

lemma pyfloat_less_trans: "pyfloat_less a b \<Longrightarrow> pyfloat_less b c \<Longrightarrow> pyfloat_less a c"
  by (cases a; cases b; cases c) simp_all

lemma pyfloat_not_less_le:
  "a \<noteq> NaN \<Longrightarrow> b \<noteq> NaN \<Longrightarrow> \<not> pyfloat_less a b \<Longrightarrow> pyfloat_le b a"
  by (cases a; cases b) simp_all

lemma entity_map_ok_update:
  assumes ok: "entity_map_ok M ps"
      and best: "\<forall>e'\<in>set ps. entity_key e' = entity_key x \<longrightarrow>
                   \<not> pyfloat_less (ce_confidence x) (ce_confidence e')"
  shows "entity_map_ok (M(entity_key x \<mapsto> x)) (ps @ [x])"
  unfolding entity_map_ok_def
proof (intro conjI allI impI)
  fix k e assume h: "(M(entity_key x \<mapsto> x)) k = Some e"
  have old: "M k = Some e \<Longrightarrow> entity_key e = k \<and> e \<in> set ps"
    using ok unfolding entity_map_ok_def by blast
  show "entity_key e = k"
    using h old by (cases "k = entity_key x") simp_all
  show "e \<in> set (ps @ [x])"
    using h old by (cases "k = entity_key x") simp_all
  show "\<forall>e'\<in>set (ps @ [x]). entity_key e' = k \<longrightarrow>
          \<not> pyfloat_less (ce_confidence e) (ce_confidence e')"
  proof (cases "k = entity_key x")
    case True
    then have "e = x" using h by simp
    then show ?thesis using best True by (auto simp: pyfloat_less_irrefl)
  next
    case False
    then have "M k = Some e" using h by simp
    then have "\<forall>e'\<in>set ps. entity_key e' = k \<longrightarrow>
                 \<not> pyfloat_less (ce_confidence e) (ce_confidence e')"
      using ok unfolding entity_map_ok_def by blast
    then show ?thesis using False by auto
  qed
next
  have "dom M = entity_key ` set ps" using ok unfolding entity_map_ok_def by blast
  then show "dom (M(entity_key x \<mapsto> x)) = entity_key ` set (ps @ [x])" by auto
qed

lemma entity_map_ok_keep:
  assumes ok: "entity_map_ok M ps"
      and kept: "M (entity_key x) = Some kept"
      and le: "\<not> pyfloat_less (ce_confidence kept) (ce_confidence x)"
  shows "entity_map_ok M (ps @ [x])"
  unfolding entity_map_ok_def
proof (intro conjI allI impI)
  fix k e assume h: "M k = Some e"
  then have a: "entity_key e = k" and b: "e \<in> set ps"
    and c: "\<forall>e'\<in>set ps. entity_key e' = k \<longrightarrow>
              \<not> pyfloat_less (ce_confidence e) (ce_confidence e')"
    using ok unfolding entity_map_ok_def by blast+
  show "entity_key e = k" by (rule a)
  show "e \<in> set (ps @ [x])" using b by simp
  show "\<forall>e'\<in>set (ps @ [x]). entity_key e' = k \<longrightarrow>
          \<not> pyfloat_less (ce_confidence e) (ce_confidence e')"
  proof (cases "k = entity_key x")
    case True
    then have "e = kept" using h kept by simp
    then show ?thesis using c le True by auto
  next
    case False
    then show ?thesis using c by auto
  qed
next
  have d: "dom M = entity_key ` set ps" using ok unfolding entity_map_ok_def by blast
  have "entity_key x \<in> dom M" using kept by blast
  then show "dom M = entity_key ` set (ps @ [x])" using d by auto
qed

lemma map_of_deduplicate_step:
  "map_of (deduplicate_step x m) =
     (case map_of m (entity_key x) of
        None \<Rightarrow> (map_of m)(entity_key x \<mapsto> x)
      | Some kept \<Rightarrow> if pyfloat_less (ce_confidence kept) (ce_confidence x)
                     then (map_of m)(entity_key x \<mapsto> x) else map_of m)"
  by (simp add: deduplicate_step_def update_conv' split: option.splits)

lemma distinct_deduplicate_step:
  "distinct (map fst m) \<Longrightarrow> distinct (map fst (deduplicate_step x m))"
  by (simp add: deduplicate_step_def distinct_update split: option.splits)

lemma entity_map_ok_step:
  assumes ok: "entity_map_ok (map_of m) ps"
  shows "entity_map_ok (map_of (deduplicate_step x m)) (ps @ [x])"
proof (cases "map_of m (entity_key x)")
  case None
  have "entity_key x \<notin> entity_key ` set ps"
    using None ok unfolding entity_map_ok_def by (metis domIff)
  then have "\<forall>e'\<in>set ps. entity_key e' = entity_key x \<longrightarrow>
               \<not> pyfloat_less (ce_confidence x) (ce_confidence e')"
    by (metis imageI)
  from entity_map_ok_update [OF ok this] show ?thesis
    using None by (simp add: map_of_deduplicate_step)
next
  case (Some kept)
  show ?thesis
  proof (cases "pyfloat_less (ce_confidence kept) (ce_confidence x)")
    case True
    have old: "\<forall>e'\<in>set ps. entity_key e' = entity_key x \<longrightarrow>
                 \<not> pyfloat_less (ce_confidence kept) (ce_confidence e')"
      using ok Some unfolding entity_map_ok_def by blast
    have "\<forall>e'\<in>set ps. entity_key e' = entity_key x \<longrightarrow>
            \<not> pyfloat_less (ce_confidence x) (ce_confidence e')"
    proof (intro ballI impI notI)
      fix e' assume e': "e' \<in> set ps" "entity_key e' = entity_key x"
        and gt: "pyfloat_less (ce_confidence x) (ce_confidence e')"
      from pyfloat_less_trans [OF True gt] old e' show False by blast
    qed
    from entity_map_ok_update [OF ok this] show ?thesis
      using Some True by (simp add: map_of_deduplicate_step)
  next
    case False
    from entity_map_ok_keep [OF ok Some False] show ?thesis
      using Some False by (simp add: map_of_deduplicate_step)
  qed
qed

lemma entity_map_fold:
  "distinct (map fst (fold deduplicate_step es []))
   \<and> entity_map_ok (map_of (fold deduplicate_step es [])) es"
proof (induction es rule: rev_induct)
  case Nil
  show ?case by (simp add: entity_map_ok_def)
next
  case (snoc x xs)
  then show ?case
    using entity_map_ok_step [of "fold deduplicate_step xs []" xs x]
          distinct_deduplicate_step [of "fold deduplicate_step xs []" x]
    by simp
qed

lemma deduplicate_entities_props:
  "distinct (map entity_key (deduplicate_entities es))
   \<and> (\<forall>e\<in>set (deduplicate_entities es). e \<in> set es
        \<and> (\<forall>e'\<in>set es. entity_key e' = entity_key e \<longrightarrow>
              \<not> pyfloat_less (ce_confidence e) (ce_confidence e')))
   \<and> entity_key ` set (deduplicate_entities es) = entity_key ` set es"
proof -
  define m where "m = fold deduplicate_step es []"
  have d: "distinct (map fst m)" and ok: "entity_map_ok (map_of m) es"
    using entity_map_fold [of es] by (simp_all add: m_def)
  have mem: "\<And>k e. (k, e) \<in> set m \<Longrightarrow> entity_key e = k \<and> e \<in> set es
        \<and> (\<forall>e'\<in>set es. entity_key e' = k \<longrightarrow>
              \<not> pyfloat_less (ce_confidence e) (ce_confidence e'))"
  proof -
    fix k e assume "(k, e) \<in> set m"
    then have "map_of m k = Some e" using d by simp
    then show "entity_key e = k \<and> e \<in> set es
        \<and> (\<forall>e'\<in>set es. entity_key e' = k \<longrightarrow>
              \<not> pyfloat_less (ce_confidence e) (ce_confidence e'))"
      using ok unfolding entity_map_ok_def by blast
  qed
  have keys: "map entity_key (map snd m) = map fst m"
    using mem by (auto intro!: map_cong [OF refl] simp: comp_def)
  have out: "deduplicate_entities es = map snd m" by (simp add: deduplicate_entities_def m_def)
  have 1: "distinct (map entity_key (deduplicate_entities es))"
    unfolding out keys by (rule d)
  have 2: "\<forall>e\<in>set (deduplicate_entities es). e \<in> set es
        \<and> (\<forall>e'\<in>set es. entity_key e' = entity_key e \<longrightarrow>
              \<not> pyfloat_less (ce_confidence e) (ce_confidence e'))"
    unfolding out using mem by fastforce
  have "set (map entity_key (map snd m)) = fst ` set m" unfolding keys by simp
  moreover have "fst ` set m = dom (map_of m)" by (simp add: dom_map_of_conv_image_fst)
  moreover have "dom (map_of m) = entity_key ` set es" using ok unfolding entity_map_ok_def by blast
  ultimately have 3: "entity_key ` set (deduplicate_entities es) = entity_key ` set es"
    unfolding out by (simp add: image_comp)
  from 1 2 3 show ?thesis by blast
qed

lemma deduplicate_entities_maximal:
  assumes e: "e \<in> set (deduplicate_entities es)"
      and nn: "\<forall>e'\<in>set es. entity_key e' = entity_key e \<longrightarrow> ce_confidence e' \<noteq> NaN"
  shows "\<forall>e'\<in>set es. entity_key e' = entity_key e \<longrightarrow>
           pyfloat_le (ce_confidence e') (ce_confidence e)"
proof (intro ballI impI)
  fix e' assume e': "e' \<in> set es" "entity_key e' = entity_key e"
  from deduplicate_entities_props [of es] e have mem: "e \<in> set es"
    and best: "\<forall>e'\<in>set es. entity_key e' = entity_key e \<longrightarrow>
                 \<not> pyfloat_less (ce_confidence e) (ce_confidence e')"
    by blast+
  have "ce_confidence e \<noteq> NaN" using nn mem by blast
  moreover have "ce_confidence e' \<noteq> NaN" using nn e' by blast
  moreover have "\<not> pyfloat_less (ce_confidence e) (ce_confidence e')" using best e' by blast
  ultimately show "pyfloat_le (ce_confidence e') (ce_confidence e)"
    by (rule pyfloat_not_less_le)
qed

text \<open>
  What holds of \<^verbatim>\<open>_deduplicate_entities\<close> for every input list: every key (lowercased
  text, entity type) occurs at most once in the result, and the keys of the result are
  exactly the keys of the input. Each retained entity is one of the input entities, and no
  input entity with its key has a confidence that compares greater than its own; when none
  of the input entities with that key has a NaN confidence, the retained entity has the
  greatest confidence among them.
\<close>

theorem deduplicate_entities_keeps_best:
  "distinct (map entity_key (deduplicate_entities es))
   \<and> (\<forall>e\<in>set (deduplicate_entities es). e \<in> set es
        \<and> (\<forall>e'\<in>set es. entity_key e' = entity_key e \<longrightarrow>
              \<not> pyfloat_less (ce_confidence e) (ce_confidence e'))
        \<and> ((\<forall>e'\<in>set es. entity_key e' = entity_key e \<longrightarrow> ce_confidence e' \<noteq> NaN) \<longrightarrow>
             (\<forall>e'\<in>set es. entity_key e' = entity_key e \<longrightarrow>
                pyfloat_le (ce_confidence e') (ce_confidence e))))
   \<and> entity_key ` set (deduplicate_entities es) = entity_key ` set es"
  using deduplicate_entities_props [of es] deduplicate_entities_maximal [of _ es]
  by blast

theorem deduplicate_entities_keeps_best_witness:
  "deduplicate_entities
       [entity_of ''Ann'' PERSON (Fin (1 / 2)), entity_of ''Bob'' PERSON (Fin (1 / 2)),
        entity_of ''ANN'' PERSON (Fin (3 / 4))]
     = [entity_of ''ANN'' PERSON (Fin (3 / 4)), entity_of ''Bob'' PERSON (Fin (1 / 2))]
   \<and> distinct (map entity_key (deduplicate_entities
       [entity_of ''Ann'' PERSON (Fin (1 / 2)), entity_of ''Bob'' PERSON (Fin (1 / 2)),
        entity_of ''ANN'' PERSON (Fin (3 / 4))]))
   \<and> entity_key ` set (deduplicate_entities
       [entity_of ''Ann'' PERSON (Fin (1 / 2)), entity_of ''Bob'' PERSON (Fin (1 / 2)),
        entity_of ''ANN'' PERSON (Fin (3 / 4))])
     = entity_key ` set [entity_of ''Ann'' PERSON (Fin (1 / 2)), entity_of ''Bob'' PERSON (Fin (1 / 2)),
        entity_of ''ANN'' PERSON (Fin (3 / 4))]
   \<and> pyfloat_le (ce_confidence (entity_of ''Ann'' PERSON (Fin (1 / 2))))
        (ce_confidence (entity_of ''ANN'' PERSON (Fin (3 / 4))))"
proof -
  have run: "deduplicate_entities
       [entity_of ''Ann'' PERSON (Fin (1 / 2)), entity_of ''Bob'' PERSON (Fin (1 / 2)),
        entity_of ''ANN'' PERSON (Fin (3 / 4))]
     = [entity_of ''ANN'' PERSON (Fin (3 / 4)), entity_of ''Bob'' PERSON (Fin (1 / 2))]"
    by code_simp
  have le: "pyfloat_le (ce_confidence (entity_of ''Ann'' PERSON (Fin (1 / 2))))
        (ce_confidence (entity_of ''ANN'' PERSON (Fin (3 / 4))))"
    by (simp add: entity_of_def)
  from deduplicate_entities_keeps_best
         [of "[entity_of ''Ann'' PERSON (Fin (1 / 2)), entity_of ''Bob'' PERSON (Fin (1 / 2)),
               entity_of ''ANN'' PERSON (Fin (3 / 4))]"]
  show ?thesis using run le by blast
qed


subsection \<open>Hyperedges of the V2 builder\<close>

lemma node_lookup_of_SomeD:
  assumes "node_lookup_of nodes k = Some i"
  shows "\<exists>n\<in>set nodes. lower (n_content n) = k \<and> n_id n = i"
proof -
  from assms have "(k, i) \<in> set (rev (map (\<lambda>node. (lower (n_content node), n_id node)) nodes))"
    unfolding node_lookup_of_def by (rule map_of_SomeD)
  then show ?thesis by auto
qed

lemma node_lookup_of_None:
  assumes "k \<notin> (\<lambda>n. lower (n_content n)) ` set nodes"
  shows "node_lookup_of nodes k = None"
proof -
  have "k \<notin> fst ` set (rev (map (\<lambda>node. (lower (n_content node), n_id node)) nodes))"
    using assms by (auto simp: image_iff)
  then show ?thesis unfolding node_lookup_of_def by (simp add: map_of_eq_None_iff)
qed

lemma create_hyperedge_SomeD:
  assumes "create_hyperedge ts (node_lookup_of nodes) rel = Some e"
  shows "node_lookup_of nodes (lower (cr_source_entity rel)) = Some (e_source_node_id e)
       \<and> node_lookup_of nodes (lower (cr_target_entity rel)) = Some (e_target_node_id e)
       \<and> e_source_node_id e \<noteq> [] \<and> e_target_node_id e \<noteq> []
       \<and> e_edge_type e = cr_relationship_type rel
       \<and> e_id e = ''edge_'' @ e_source_node_id e @ ''_'' @ e_target_node_id e @ ''_''
                    @ edge_type_value (e_edge_type e)"
  using assms by (auto simp: create_hyperedge_def split: option.splits if_splits)

lemma map_filter_filter_None:
  assumes "\<And>x. \<not> P x \<Longrightarrow> f x = None"
  shows "List.map_filter f (filter P xs) = List.map_filter f xs"
  using assms by (induction xs) (auto simp: List.map_filter_simps split: option.splits)

lemma set_map_filter: "y \<in> set (List.map_filter f xs) \<longleftrightarrow> (\<exists>x\<in>set xs. f x = Some y)"
  by (induction xs) (auto simp: List.map_filter_simps split: option.splits)

lemma create_enhanced_hyperedges_sound:
  "(\<forall>e \<in> set (create_enhanced_hyperedges ts rels nodes).
      e_source_node_id e \<in> n_id ` set nodes \<and> e_target_node_id e \<in> n_id ` set nodes
      \<and> (\<exists>rel\<in>set rels. \<exists>ns\<in>set nodes. \<exists>nt\<in>set nodes.
            lower (n_content ns) = lower (cr_source_entity rel) \<and> n_id ns = e_source_node_id e
          \<and> lower (n_content nt) = lower (cr_target_entity rel) \<and> n_id nt = e_target_node_id e
          \<and> e_edge_type e = cr_relationship_type rel))"
proof
  fix e assume "e \<in> set (create_enhanced_hyperedges ts rels nodes)"
  then obtain rel where rel: "rel \<in> set rels"
      and e: "create_hyperedge ts (node_lookup_of nodes) rel = Some e"
    unfolding create_enhanced_hyperedges_def set_map_filter by blast
  note d = create_hyperedge_SomeD [OF e]
  from d have ls: "node_lookup_of nodes (lower (cr_source_entity rel)) = Some (e_source_node_id e)"
    and lt: "node_lookup_of nodes (lower (cr_target_entity rel)) = Some (e_target_node_id e)"
    and ty: "e_edge_type e = cr_relationship_type rel"
    by simp_all
  from node_lookup_of_SomeD [OF ls] obtain ns where ns: "ns \<in> set nodes"
      "lower (n_content ns) = lower (cr_source_entity rel)" "n_id ns = e_source_node_id e"
    by blast
  from node_lookup_of_SomeD [OF lt] obtain nt where nt: "nt \<in> set nodes"
      "lower (n_content nt) = lower (cr_target_entity rel)" "n_id nt = e_target_node_id e"
    by blast
  have s: "e_source_node_id e \<in> n_id ` set nodes" using ns(1,3) by (metis imageI)
  have t: "e_target_node_id e \<in> n_id ` set nodes" using nt(1,3) by (metis imageI)
  have ex: "\<exists>rel\<in>set rels. \<exists>ns\<in>set nodes. \<exists>nt\<in>set nodes.
            lower (n_content ns) = lower (cr_source_entity rel) \<and> n_id ns = e_source_node_id e
          \<and> lower (n_content nt) = lower (cr_target_entity rel) \<and> n_id nt = e_target_node_id e
          \<and> e_edge_type e = cr_relationship_type rel"
    by (intro bexI [OF _ rel] bexI [OF _ ns(1)] bexI [OF _ nt(1)] conjI ns(2,3) nt(2,3) ty)
  from s t ex show "e_source_node_id e \<in> n_id ` set nodes \<and> e_target_node_id e \<in> n_id ` set nodes
      \<and> (\<exists>rel\<in>set rels. \<exists>ns\<in>set nodes. \<exists>nt\<in>set nodes.
            lower (n_content ns) = lower (cr_source_entity rel) \<and> n_id ns = e_source_node_id e
          \<and> lower (n_content nt) = lower (cr_target_entity rel) \<and> n_id nt = e_target_node_id e
          \<and> e_edge_type e = cr_relationship_type rel)"
    by (intro conjI)
qed

lemma create_enhanced_hyperedges_discard:
  "create_enhanced_hyperedges ts
     (filter (\<lambda>rel. lower (cr_source_entity rel) \<in> (\<lambda>n. lower (n_content n)) ` set nodes
                  \<and> lower (cr_target_entity rel) \<in> (\<lambda>n. lower (n_content n)) ` set nodes) rels)
     nodes
   = create_enhanced_hyperedges ts rels nodes"
  unfolding create_enhanced_hyperedges_def
proof (rule map_filter_filter_None)
  fix rel
  assume "\<not> (lower (cr_source_entity rel) \<in> (\<lambda>n. lower (n_content n)) ` set nodes
                  \<and> lower (cr_target_entity rel) \<in> (\<lambda>n. lower (n_content n)) ` set nodes)"
  then consider "lower (cr_source_entity rel) \<notin> (\<lambda>n. lower (n_content n)) ` set nodes"
    | "lower (cr_target_entity rel) \<notin> (\<lambda>n. lower (n_content n)) ` set nodes"
    by blast
  then show "create_hyperedge ts (node_lookup_of nodes) rel = None"
  proof cases
    case 1
    from node_lookup_of_None [OF 1] show ?thesis by (simp add: create_hyperedge_def)
  next
    case 2
    from node_lookup_of_None [OF 2] show ?thesis
      by (simp add: create_hyperedge_def split: option.splits)
  qed
qed

text \<open>
  Claim C9. Every hyperedge built by \<^verbatim>\<open>_create_enhanced_hyperedges\<close> has exactly two
  endpoints, \<^verbatim>\<open>source_node_id\<close> and \<^verbatim>\<open>target_node_id\<close>, and each is the id of a node of
  the hypernode list: the edge comes from a relationship whose source and target texts
  equal, after lowercasing, the contents of those two nodes. Relationships whose source or
  target text matches no node content contribute nothing to the result.
\<close>

theorem create_enhanced_hyperedges_referential_integrity:
  "(\<forall>e \<in> set (create_enhanced_hyperedges ts rels nodes).
      e_source_node_id e \<in> n_id ` set nodes \<and> e_target_node_id e \<in> n_id ` set nodes
      \<and> (\<exists>rel\<in>set rels. \<exists>ns\<in>set nodes. \<exists>nt\<in>set nodes.
            lower (n_content ns) = lower (cr_source_entity rel) \<and> n_id ns = e_source_node_id e
          \<and> lower (n_content nt) = lower (cr_target_entity rel) \<and> n_id nt = e_target_node_id e
          \<and> e_edge_type e = cr_relationship_type rel))
   \<and> create_enhanced_hyperedges ts
         (filter (\<lambda>rel. lower (cr_source_entity rel) \<in> (\<lambda>n. lower (n_content n)) ` set nodes
                      \<and> lower (cr_target_entity rel) \<in> (\<lambda>n. lower (n_content n)) ` set nodes) rels)
         nodes
       = create_enhanced_hyperedges ts rels nodes"
  using create_enhanced_hyperedges_sound [of ts rels nodes]
        create_enhanced_hyperedges_discard [of ts nodes rels]
  by (rule conjI)

theorem create_enhanced_hyperedges_referential_integrity_witness:
  "create_enhanced_hyperedges ''t''
       [relationship_of ''ANN'' ''rust'' USES 1, relationship_of ''Ann'' ''go'' USES 1]
       [node_of ''p1'' ''Ann'' PERSON 1, node_of ''s1'' ''Rust'' SKILL 1]
     = [\<lparr> e_id = ''edge_p1_s1_uses'', e_source_node_id = ''p1'', e_target_node_id = ''s1'',
           e_edge_type = USES, e_confidence = 1, e_timestamp = ''t'', e_extraction_source = [],
           e_relationship_strength = 1, e_evidence = [], e_reasoning = [] \<rparr>]
   \<and> ''p1'' \<in> n_id ` set [node_of ''p1'' ''Ann'' PERSON 1, node_of ''s1'' ''Rust'' SKILL 1]
   \<and> ''s1'' \<in> n_id ` set [node_of ''p1'' ''Ann'' PERSON 1, node_of ''s1'' ''Rust'' SKILL 1]"
proof -
  have run: "create_enhanced_hyperedges ''t''
       [relationship_of ''ANN'' ''rust'' USES 1, relationship_of ''Ann'' ''go'' USES 1]
       [node_of ''p1'' ''Ann'' PERSON 1, node_of ''s1'' ''Rust'' SKILL 1]
     = [\<lparr> e_id = ''edge_p1_s1_uses'', e_source_node_id = ''p1'', e_target_node_id = ''s1'',
           e_edge_type = USES, e_confidence = 1, e_timestamp = ''t'', e_extraction_source = [],
           e_relationship_strength = 1, e_evidence = [], e_reasoning = [] \<rparr>]"
    by code_simp
  from create_enhanced_hyperedges_referential_integrity
         [of "''t''" "[relationship_of ''ANN'' ''rust'' USES 1, relationship_of ''Ann'' ''go'' USES 1]"
             "[node_of ''p1'' ''Ann'' PERSON 1, node_of ''s1'' ''Rust'' SKILL 1]"]
  show ?thesis unfolding run by simp
qed

subsection \<open>Storage with retries\<close>

lemma range3: "[0..<3] = [0, 1, 2]"
  by (simp add: upt_rec numeral_3_eq_3)

text \<open>
  Claim C7. With \<^verbatim>\<open>max_retries = 3\<close>, \<^verbatim>\<open>_store_json_with_retry\<close> calls \<^verbatim>\<open>put_object\<close> at
  most three times. It returns at the first call that succeeds; after the \<open>k\<close>-th call
  that fails with \<^verbatim>\<open>ClientError\<close> or \<^verbatim>\<open>BotoCoreError\<close> (\<open>k = 1, 2\<close>) it sleeps
  \<open>base_delay * 2 ^ (k - 1)\<close> seconds before the next call; and when all three calls fail so,
  it raises \<^verbatim>\<open>S3StorageError\<close> without sleeping again.
\<close>

theorem store_json_with_retry_backoff:
  assumes "max_retries self = 3"
  shows "length (filter is_put_object (snd (store_json_with_retry self False put))) \<le> 3
   \<and> (put 0 = Put_ok \<longrightarrow>
        store_json_with_retry self False put = (Returned, [Put_object 0]))
   \<and> (put 0 = Put_boto_error \<and> put 1 = Put_ok \<longrightarrow>
        store_json_with_retry self False put
          = (Returned, [Put_object 0, Sleep (base_delay self * 2 ^ 0), Put_object 1]))
   \<and> (put 0 = Put_boto_error \<and> put 1 = Put_boto_error \<and> put 2 = Put_ok \<longrightarrow>
        store_json_with_retry self False put
          = (Returned, [Put_object 0, Sleep (base_delay self * 2 ^ 0),
                        Put_object 1, Sleep (base_delay self * 2 ^ 1), Put_object 2]))
   \<and> (put 0 = Put_boto_error \<and> put 1 = Put_boto_error \<and> put 2 = Put_boto_error \<longrightarrow>
        store_json_with_retry self False put
          = (Raised_S3StorageError, [Put_object 0, Sleep (base_delay self * 2 ^ 0),
                        Put_object 1, Sleep (base_delay self * 2 ^ 1), Put_object 2]))"
proof -
  have run: "store_json_with_retry self False put = store_attempts self put [0, 1, 2]"
    using assms by (simp add: store_json_with_retry_def range3)
  have count: "length (filter is_put_object (snd (store_attempts self put [0, 1, 2]))) \<le> 3"
    using assms by (simp add: Let_def split: put_outcome.splits prod.splits)
  show ?thesis
    unfolding run using assms count by (simp add: Let_def)
qed

theorem store_json_with_retry_backoff_witness:
  "max_retries S3GraphStorage_init = 3
   \<and> store_json_with_retry S3GraphStorage_init False (\<lambda>attempt. Put_ok) = (Returned, [Put_object 0])
   \<and> store_json_with_retry S3GraphStorage_init False
        (\<lambda>attempt. if attempt < 1 then Put_boto_error else Put_ok)
      = (Returned, [Put_object 0, Sleep 1, Put_object 1])
   \<and> store_json_with_retry S3GraphStorage_init False
        (\<lambda>attempt. if attempt < 2 then Put_boto_error else Put_ok)
      = (Returned, [Put_object 0, Sleep 1, Put_object 1, Sleep 2, Put_object 2])
   \<and> store_json_with_retry S3GraphStorage_init False (\<lambda>attempt. Put_boto_error)
      = (Raised_S3StorageError, [Put_object 0, Sleep 1, Put_object 1, Sleep 2, Put_object 2])"
proof -
  have m: "max_retries S3GraphStorage_init = 3" and b: "base_delay S3GraphStorage_init = 1"
    by (simp_all add: S3GraphStorage_init_def)
  show ?thesis
    using store_json_with_retry_backoff [OF m, of "\<lambda>attempt. Put_ok"]
          store_json_with_retry_backoff [OF m, of "\<lambda>attempt. if attempt < 1 then Put_boto_error else Put_ok"]
          store_json_with_retry_backoff [OF m, of "\<lambda>attempt. if attempt < 2 then Put_boto_error else Put_ok"]
          store_json_with_retry_backoff [OF m, of "\<lambda>attempt. Put_boto_error"]
    by (simp add: m b)
qed


subsection \<open>Records produced by the parser\<close>
















subsection \<open>Ids\<close>

lemma map_map_filter_cong:
  assumes "\<And>x. map_option f (g x) = map_option f (g' x)"
  shows "map f (List.map_filter g xs) = map f (List.map_filter g' xs)"
proof (induction xs)
  case Nil
  show ?case by (simp add: List.map_filter_simps)
next
  case (Cons x xs)
  show ?case
    using assms [of x] Cons
    by (cases "g x"; cases "g' x") (simp_all add: List.map_filter_simps)
qed

lemma extract_node_id_independent:
  "map_option en_id (extract_node env customer_id source_file1 time1 hypernode)
     = map_option en_id (extract_node env customer_id source_file2 time2 hypernode)"
  unfolding extract_node_def Let_def
  by (auto split: Option.bind_splits)

lemma extract_edge_id_independent:
  "map_option ee_id (extract_edge env customer_id source_file1 time1 hyperedge)
     = map_option ee_id (extract_edge env customer_id source_file2 time2 hyperedge)"
  unfolding extract_edge_def Let_def
  by (auto split: Option.bind_splits)

lemma create_hyperedge_id_independent:
  "map_option e_id (create_hyperedge ts1 lookup rel) = map_option e_id (create_hyperedge ts2 lookup rel)"
  unfolding create_hyperedge_def
  by (auto split: option.splits)

lemma parser_node_id_fields:
  assumes "map_of d1 ''content'' = map_of d2 ''content''"
      and "map_of d1 ''node_type'' = map_of d2 ''node_type''"
  shows "HypergraphParser_generate_node_id env (PDict d1) customer_id
           = HypergraphParser_generate_node_id env (PDict d2) customer_id"
  using assms by (simp add: HypergraphParser_generate_node_id_def)

lemma parser_edge_id_fields:
  assumes "map_of d1 ''source_node_id'' = map_of d2 ''source_node_id''"
      and "map_of d1 ''target_node_id'' = map_of d2 ''target_node_id''"
      and "map_of d1 ''edge_type'' = map_of d2 ''edge_type''"
  shows "HypergraphParser_generate_edge_id env (PDict d1) customer_id
           = HypergraphParser_generate_edge_id env (PDict d2) customer_id"
  using assms by (simp add: HypergraphParser_generate_edge_id_def)

text \<open>
  Claim C1. The V2 builder's \<^verbatim>\<open>_generate_node_id\<close> returns the node type value, an
  underscore and the first eight characters of the MD5 hex digest of the lowercased
  content. The ids of the nodes and edges the builder creates do not depend on the clock
  reading or the source path. The graph extraction agent's \<^verbatim>\<open>_generate_node_id\<close> depends
  only on the customer id and the \<^verbatim>\<open>content\<close> and \<^verbatim>\<open>node_type\<close> entries of the hypernode,
  its \<^verbatim>\<open>_generate_edge_id\<close> only on the customer id and the \<^verbatim>\<open>source_node_id\<close>,
  \<^verbatim>\<open>target_node_id\<close> and \<^verbatim>\<open>edge_type\<close> entries of the hyperedge; and two extraction runs
  over the same items, at different times and for different source files, give the same
  ids in the same order.
\<close>

theorem ids_are_functions_of_content:
  "EnhancedHypergraphBuilderV2_generate_node_id md5_hexdigest content node_type
     = node_type_value node_type @ ''_'' @ take 8 (md5_hexdigest (lower content))
   \<and> map n_id (create_enhanced_hypernodes md5_hexdigest decimal_of_float timestamp1 source1 entities)
       = map n_id (create_enhanced_hypernodes md5_hexdigest decimal_of_float timestamp2 source2 entities)
   \<and> map e_id (create_enhanced_hyperedges timestamp1 relationships hypernodes)
       = map e_id (create_enhanced_hyperedges timestamp2 relationships hypernodes)
   \<and> (map_of d1 ''content'' = map_of d2 ''content''
        \<and> map_of d1 ''node_type'' = map_of d2 ''node_type'' \<longrightarrow>
        HypergraphParser_generate_node_id env (PDict d1) customer_id
          = HypergraphParser_generate_node_id env (PDict d2) customer_id)
   \<and> (map_of d1 ''source_node_id'' = map_of d2 ''source_node_id''
        \<and> map_of d1 ''target_node_id'' = map_of d2 ''target_node_id''
        \<and> map_of d1 ''edge_type'' = map_of d2 ''edge_type'' \<longrightarrow>
        HypergraphParser_generate_edge_id env (PDict d1) customer_id
          = HypergraphParser_generate_edge_id env (PDict d2) customer_id)
   \<and> map en_id (extract_nodes env items customer_id source_file1 time1)
       = map en_id (extract_nodes env items customer_id source_file2 time2)
   \<and> map ee_id (extract_edges env items customer_id source_file1 time1)
       = map ee_id (extract_edges env items customer_id source_file2 time2)"
proof (intro conjI impI)
  show "EnhancedHypergraphBuilderV2_generate_node_id md5_hexdigest content node_type
     = node_type_value node_type @ ''_'' @ take 8 (md5_hexdigest (lower content))"
    by (simp add: EnhancedHypergraphBuilderV2_generate_node_id_def)
  show "map n_id (create_enhanced_hypernodes md5_hexdigest decimal_of_float timestamp1 source1 entities)
       = map n_id (create_enhanced_hypernodes md5_hexdigest decimal_of_float timestamp2 source2 entities)"
    by (simp add: create_enhanced_hypernodes_def)
  show "map e_id (create_enhanced_hyperedges timestamp1 relationships hypernodes)
       = map e_id (create_enhanced_hyperedges timestamp2 relationships hypernodes)"
    unfolding create_enhanced_hyperedges_def
    by (rule map_map_filter_cong) (rule create_hyperedge_id_independent)
  show "map en_id (extract_nodes env items customer_id source_file1 time1)
       = map en_id (extract_nodes env items customer_id source_file2 time2)"
    unfolding extract_nodes_def
    by (rule map_map_filter_cong) (rule extract_node_id_independent)
  show "map ee_id (extract_edges env items customer_id source_file1 time1)
       = map ee_id (extract_edges env items customer_id source_file2 time2)"
    unfolding extract_edges_def
    by (rule map_map_filter_cong) (rule extract_edge_id_independent)
next
  assume "map_of d1 ''content'' = map_of d2 ''content''
        \<and> map_of d1 ''node_type'' = map_of d2 ''node_type''"
  then show "HypergraphParser_generate_node_id env (PDict d1) customer_id
          = HypergraphParser_generate_node_id env (PDict d2) customer_id"
    using parser_node_id_fields by blast
next
  assume "map_of d1 ''source_node_id'' = map_of d2 ''source_node_id''
        \<and> map_of d1 ''target_node_id'' = map_of d2 ''target_node_id''
        \<and> map_of d1 ''edge_type'' = map_of d2 ''edge_type''"
  then show "HypergraphParser_generate_edge_id env (PDict d1) customer_id
          = HypergraphParser_generate_edge_id env (PDict d2) customer_id"
    using parser_edge_id_fields by blast
qed

theorem ids_are_functions_of_content_witness:
  "EnhancedHypergraphBuilderV2_generate_node_id (\<lambda>s. s) ''Ann Lee Smith'' PERSON = ''person_ann lee ''
   \<and> map_of [(''content'', PStr ''Ann''), (''node_type'', PStr ''person''), (''timestamp'', PStr ''t1'')] ''content''
       = map_of [(''timestamp'', PStr ''t2''), (''node_type'', PStr ''person''), (''content'', PStr ''Ann'')] ''content''
   \<and> HypergraphParser_generate_node_id example_environment
        (PDict [(''content'', PStr ''Ann''), (''node_type'', PStr ''person''), (''timestamp'', PStr ''t1'')]) ''c1''
       = Some ''node_c1:person:Ann''
   \<and> HypergraphParser_generate_node_id example_environment
        (PDict [(''timestamp'', PStr ''t2''), (''node_type'', PStr ''person''), (''content'', PStr ''Ann'')]) ''c1''
       = Some ''node_c1:person:Ann''
   \<and> HypergraphParser_generate_edge_id example_environment
        (PDict [(''source_node_id'', PStr ''a''), (''target_node_id'', PStr ''b''), (''confidence'', PNum (Fin 1))]) ''c1''
       = Some ''edge_c1:a:b:relates_t''
   \<and> HypergraphParser_generate_edge_id example_environment
        (PDict [(''target_node_id'', PStr ''b''), (''source_node_id'', PStr ''a'')]) ''c1''
       = Some ''edge_c1:a:b:relates_t''"
proof -
  have 0: "EnhancedHypergraphBuilderV2_generate_node_id (\<lambda>s. s) ''Ann Lee Smith'' PERSON
             = ''person_ann lee ''"
    by code_simp
  have 1: "HypergraphParser_generate_node_id example_environment
        (PDict [(''content'', PStr ''Ann''), (''node_type'', PStr ''person''), (''timestamp'', PStr ''t1'')]) ''c1''
       = Some ''node_c1:person:Ann''"
    by code_simp
  have 2: "HypergraphParser_generate_edge_id example_environment
        (PDict [(''source_node_id'', PStr ''a''), (''target_node_id'', PStr ''b''), (''confidence'', PNum (Fin 1))]) ''c1''
       = Some ''edge_c1:a:b:relates_t''"
    by code_simp
  have n: "HypergraphParser_generate_node_id example_environment
        (PDict [(''content'', PStr ''Ann''), (''node_type'', PStr ''person''), (''timestamp'', PStr ''t1'')]) ''c1''
      = HypergraphParser_generate_node_id example_environment
        (PDict [(''timestamp'', PStr ''t2''), (''node_type'', PStr ''person''), (''content'', PStr ''Ann'')]) ''c1''"
    using ids_are_functions_of_content
         [where env = example_environment and customer_id = "''c1''"
            and ?d1.0 = "[(''content'', PStr ''Ann''), (''node_type'', PStr ''person''), (''timestamp'', PStr ''t1'')]"
            and ?d2.0 = "[(''timestamp'', PStr ''t2''), (''node_type'', PStr ''person''), (''content'', PStr ''Ann'')]",
          THEN conjunct2, THEN conjunct2, THEN conjunct2, THEN conjunct1]
    by simp
  have e: "HypergraphParser_generate_edge_id example_environment
        (PDict [(''source_node_id'', PStr ''a''), (''target_node_id'', PStr ''b''), (''confidence'', PNum (Fin 1))]) ''c1''
      = HypergraphParser_generate_edge_id example_environment
        (PDict [(''target_node_id'', PStr ''b''), (''source_node_id'', PStr ''a'')]) ''c1''"
    using ids_are_functions_of_content
         [where env = example_environment and customer_id = "''c1''"
            and ?d1.0 = "[(''source_node_id'', PStr ''a''), (''target_node_id'', PStr ''b''), (''confidence'', PNum (Fin 1))]"
            and ?d2.0 = "[(''target_node_id'', PStr ''b''), (''source_node_id'', PStr ''a'')]",
          THEN conjunct2, THEN conjunct2, THEN conjunct2, THEN conjunct2, THEN conjunct1]
    by simp
  have m: "map_of [(''content'', PStr ''Ann''), (''node_type'', PStr ''person''), (''timestamp'', PStr ''t1'')] ''content''
       = map_of [(''timestamp'', PStr ''t2''), (''node_type'', PStr ''person''), (''content'', PStr ''Ann'')] ''content''"
    by simp
  show ?thesis
    by (intro conjI 0 m 1 2 n [symmetric, unfolded 1] e [symmetric, unfolded 2])
qed


subsection \<open>Content complexity\<close>

text \<open>
  Claim C6, amended. For every content string \<^verbatim>\<open>analyze_content_complexity\<close> returns a
  value between \<open>0\<close> and \<open>1\<close>, and the value is determined by the content's word count,
  speaker count, paragraph count and the number of the six technical keywords that occur
  in the lowercased content. The sentence count is computed but does not enter the result.
\<close>

theorem analyze_content_complexity_range_and_inputs:
  "0 \<le> analyze_content_complexity content \<and> analyze_content_complexity content \<le> 1
   \<and> (word_count content = word_count content' \<and> speaker_count content = speaker_count content'
        \<and> paragraph_count content = paragraph_count content'
        \<and> technical_hits content = technical_hits content' \<longrightarrow>
        analyze_content_complexity content = analyze_content_complexity content')"
  by (simp add: analyze_content_complexity_def Let_def)

theorem analyze_content_complexity_range_and_inputs_witness:
  "word_count ''Ann: hello'' = word_count ''Bob: world''
   \<and> speaker_count ''Ann: hello'' = speaker_count ''Bob: world''
   \<and> paragraph_count ''Ann: hello'' = paragraph_count ''Bob: world''
   \<and> technical_hits ''Ann: hello'' = technical_hits ''Bob: world''
   \<and> analyze_content_complexity ''Ann: hello'' = analyze_content_complexity ''Bob: world''
   \<and> analyze_content_complexity ''Ann: hello'' = 703 / 10000"
proof -
  have w: "word_count ''Ann: hello'' = word_count ''Bob: world''" by code_simp
  have s: "speaker_count ''Ann: hello'' = speaker_count ''Bob: world''" by code_simp
  have p: "paragraph_count ''Ann: hello'' = paragraph_count ''Bob: world''" by code_simp
  have t: "technical_hits ''Ann: hello'' = technical_hits ''Bob: world''" by code_simp
  have v: "analyze_content_complexity ''Ann: hello'' = 703 / 10000" by code_simp
  have e: "analyze_content_complexity ''Ann: hello'' = analyze_content_complexity ''Bob: world''"
    using analyze_content_complexity_range_and_inputs [of "''Ann: hello''" "''Bob: world''"]
          w s p t
    by blast
  show ?thesis by (intro conjI w s p t e v)
qed

text \<open>
  The claim as written, that the value is determined by the word, sentence and speaker
  counts, fails: \<^verbatim>\<open>system\<close> and \<^verbatim>\<open>hello\<close> have the same three counts and different scores,
  because one of them is a technical keyword.
\<close>

theorem analyze_content_complexity_counts_counterexample:
  "word_count ''system'' = word_count ''hello''
   \<and> sentence_count ''system'' = sentence_count ''hello''
   \<and> speaker_count ''system'' = speaker_count ''hello''
   \<and> analyze_content_complexity ''system'' = 2609 / 60000
   \<and> analyze_content_complexity ''hello'' = 203 / 20000
   \<and> analyze_content_complexity ''system'' \<noteq> analyze_content_complexity ''hello''"
proof -
  have w: "word_count ''system'' = word_count ''hello''" by code_simp
  have s: "sentence_count ''system'' = sentence_count ''hello''" by code_simp
  have p: "speaker_count ''system'' = speaker_count ''hello''" by code_simp
  have a: "analyze_content_complexity ''system'' = 2609 / 60000" by code_simp
  have b: "analyze_content_complexity ''hello'' = 203 / 20000" by code_simp
  have n: "analyze_content_complexity ''system'' \<noteq> analyze_content_complexity ''hello''"
    unfolding a b by simp
  show ?thesis by (intro conjI w s p a b n)
qed

subsection \<open>Needs scores\<close>

text \<open>On entries that are floats the loop computes the blend that the code's comment names.\<close>

lemma combined_score_floats:
  "combined_score (float_scores k) (float_scores l) need
     = Inr (3 / 10 * score_or_zero k need + 7 / 10 * score_or_zero l need)"
  by (simp add: combined_score_def score_get_def float_scores_def score_or_zero_def
        split: option.splits)

lemma combine_loop_floats:
  "combine_loop (float_scores k) (float_scores l) needs
     = Inr (map (\<lambda>need. (need, 3 / 10 * score_or_zero k need + 7 / 10 * score_or_zero l need))
              needs)"
  by (induction needs) (simp_all add: combined_score_floats)

text \<open>
  In \<^verbatim>\<open>analyze_needs_from_interview\<close> the LLM scores are \<^verbatim>\<open>Decimal\<close>s, so the product
  \<^verbatim>\<open>0.7 * llm_score\<close> raises for the first need.
\<close>

lemma llm_score_is_decimal:
  "float_times a (score_get (analyze_needs_with_llm generation) need) = Inl TypeError"
proof (cases generation)
  case Generation_unparsable
  then show ?thesis by (simp add: score_get_def)
next
  case (Generation m)
  then show ?thesis by (cases "m need") (simp_all add: score_get_def)
qed

lemma analyze_needs_from_interview_raises:
  "analyze_needs_from_interview_scores content generation = Inl TypeError"
proof -
  have k: "score_get (keyword_scores_of content) CERTAINTY
             = PyFloat (analyze_needs_keywords content CERTAINTY)"
    by (simp add: score_get_def keyword_scores_of_def)
  have "combined_score (keyword_scores_of content) (analyze_needs_with_llm generation) CERTAINTY
          = Inl TypeError"
    unfolding combined_score_def Let_def k by (simp add: llm_score_is_decimal)
  then show ?thesis
    by (simp add: analyze_needs_from_interview_scores_def combine_needs_scores_def human_needs_def)
qed

text \<open>
  The scores of \<^verbatim>\<open>analyze_human_needs\<close> for a response with scores: each need has the
  response's score, or the fallback score when the response has none.
\<close>

lemma map_of_ensure_need:
  "map_of (ensure_need content_type need m) k =
     (if k = need \<and> map_of m need = None
      then Some (get_content_aware_fallback_score need content_type) else map_of m k)"
  by (simp add: ensure_need_def update_conv')

lemma map_of_fold_ensure_need:
  "map_of (fold (ensure_need content_type) needs m) k =
     (case map_of m k of
        Some v \<Rightarrow> Some v
      | None \<Rightarrow> if k \<in> set needs then Some (get_content_aware_fallback_score k content_type)
                else None)"
proof (induction needs arbitrary: m)
  case Nil
  show ?case by (simp split: option.splits)
next
  case (Cons n ns)
  show ?case
    by (simp add: Cons map_of_ensure_need split: option.splits)
qed

text \<open>
  Claim C2. The claim says that \<^verbatim>\<open>combine_needs_scores\<close> returns, for each need, \<open>0.3\<close> times
  the keyword score plus \<open>0.7\<close> times the LLM score, and that this blend is the needs score
  the agent produces. The code states this blend and does not deliver it. On the text
  \<^verbatim>\<open>hello\<close>, with a model response that gives certainty \<open>0.9\<close>, the keyword score of
  certainty is the float \<open>0.0\<close> and the score from \<^verbatim>\<open>analyze_needs_with_llm\<close> is
  \<^verbatim>\<open>Decimal('0.9')\<close>; \<^verbatim>\<open>combine_needs_scores\<close>, and with it \<^verbatim>\<open>analyze_needs_from_interview\<close>,
  raises \<^verbatim>\<open>TypeError\<close> instead of returning \<open>0.63\<close> for certainty, which is what the same
  numbers give as floats. The handler does not call the blend at all: its score for
  certainty is the model's \<open>0.9\<close>.
\<close>

theorem combine_needs_scores_raises_on_llm_scores:
  "keyword_scores_of ''hello'' CERTAINTY = Some (PyFloat 0)
   \<and> analyze_needs_with_llm (Generation (map_of [(CERTAINTY, 9 / 10)])) CERTAINTY
       = Some (PyDecimal (9 / 10))
   \<and> combine_needs_scores (keyword_scores_of ''hello'')
        (analyze_needs_with_llm (Generation (map_of [(CERTAINTY, 9 / 10)]))) = Inl TypeError
   \<and> analyze_needs_from_interview_scores ''hello'' (Generation (map_of [(CERTAINTY, 9 / 10)]))
       = Inl TypeError
   \<and> combine_needs_scores (keyword_scores_of ''hello'') (float_scores (map_of [(CERTAINTY, 9 / 10)]))
       = Inr [(CERTAINTY, 63 / 100), (VARIETY, 0), (SIGNIFICANCE, 0), (CONNECTION, 0),
              (GROWTH, 0), (CONTRIBUTION, 0)]
   \<and> map_of (analyze_human_needs_scores (Llm_needs_scores [(''certainty'', 9 / 10)])
              ''interview_transcript'' []) ''certainty'' = Some (9 / 10)"
proof -
  have a: "keyword_scores_of ''hello'' CERTAINTY = Some (PyFloat 0)" by code_simp
  have b: "analyze_needs_with_llm (Generation (map_of [(CERTAINTY, 9 / 10)])) CERTAINTY
             = Some (PyDecimal (9 / 10))"
    by code_simp
  have c: "combine_needs_scores (keyword_scores_of ''hello'')
             (analyze_needs_with_llm (Generation (map_of [(CERTAINTY, 9 / 10)]))) = Inl TypeError"
    using analyze_needs_from_interview_raises
            [of "''hello''" "Generation (map_of [(CERTAINTY, 9 / 10)])"]
    by (simp add: analyze_needs_from_interview_scores_def)
  have d: "analyze_needs_from_interview_scores ''hello''
             (Generation (map_of [(CERTAINTY, 9 / 10)])) = Inl TypeError"
    by (rule analyze_needs_from_interview_raises)
  have e: "combine_needs_scores (keyword_scores_of ''hello'')
             (float_scores (map_of [(CERTAINTY, 9 / 10)]))
       = Inr [(CERTAINTY, 63 / 100), (VARIETY, 0), (SIGNIFICANCE, 0), (CONNECTION, 0),
              (GROWTH, 0), (CONTRIBUTION, 0)]"
    by code_simp
  have f: "map_of (analyze_human_needs_scores (Llm_needs_scores [(''certainty'', 9 / 10)])
              ''interview_transcript'' []) ''certainty'' = Some (9 / 10)"
    by code_simp
  show ?thesis by (intro conjI a b c d e f)
qed

end
